theory Spec2Isabelle
  imports Main "HOL-Library.Word"
begin

unbundle bit_operations_syntax

section \<open>Machine types and the packed wire layout\<close>

type_synonym u8 = "8 word"
type_synonym u16 = "16 word"
type_synonym u32 = "32 word"

text \<open>The target is a little-endian Cortex-M4; a packed struct is transmitted as its
  memory image, low byte first.\<close>

definition le16 :: "u16 \<Rightarrow> u8 list" where
  "le16 w = [ucast w, ucast (drop_bit 8 w)]"

definition le32 :: "u32 \<Rightarrow> u8 list" where
  "le32 w = [ucast w, ucast (drop_bit 8 w), ucast (drop_bit 16 w), ucast (drop_bit 24 w)]"

definition u16_of_le :: "u8 \<Rightarrow> u8 \<Rightarrow> u16" where
  "u16_of_le lo hi = ucast lo OR push_bit 8 (ucast hi)"

subsection \<open>main.h: constants\<close>

definition STATE_BOOT :: u8 where "STATE_BOOT = 0x00"
definition STATE_IDLE :: u8 where "STATE_IDLE = 0x01"
definition STATE_NOMINAL :: u8 where "STATE_NOMINAL = 0x02"
definition STATE_SAFE :: u8 where "STATE_SAFE = 0x03"
definition STATE_LOW_POWER :: u8 where "STATE_LOW_POWER = 0x04"
definition STATE_EMERGENCY :: u8 where "STATE_EMERGENCY = 0x05"
definition STATE_IMAGE_CAPTURE :: u8 where "STATE_IMAGE_CAPTURE = 0x06"
definition STATE_DATA_TX :: u8 where "STATE_DATA_TX = 0x07"

definition CMD_PING :: u8 where "CMD_PING = 0x01"
definition CMD_GET_TELEMETRY :: u8 where "CMD_GET_TELEMETRY = 0x02"
definition CMD_CAPTURE_IMAGE :: u8 where "CMD_CAPTURE_IMAGE = 0x03"
definition CMD_SET_MODE :: u8 where "CMD_SET_MODE = 0x04"
definition CMD_RESET :: u8 where "CMD_RESET = 0x05"
definition CMD_TRANSMIT_FILE :: u8 where "CMD_TRANSMIT_FILE = 0x06"
definition CMD_UPDATE_FIRMWARE :: u8 where "CMD_UPDATE_FIRMWARE = 0x07"
definition CMD_SET_SCHEDULE :: u8 where "CMD_SET_SCHEDULE = 0x08"
definition CMD_BEACON :: u8 where "CMD_BEACON = 0x09"

definition ERROR_NONE :: u8 where "ERROR_NONE = 0x00"
definition ERROR_I2C :: u8 where "ERROR_I2C = 0x01"
definition ERROR_SPI :: u8 where "ERROR_SPI = 0x02"
definition ERROR_UART :: u8 where "ERROR_UART = 0x03"
definition ERROR_ADC :: u8 where "ERROR_ADC = 0x04"
definition ERROR_BATTERY :: u8 where "ERROR_BATTERY = 0x05"
definition ERROR_TEMPERATURE :: u8 where "ERROR_TEMPERATURE = 0x06"
definition ERROR_TASK_HANG :: u8 where "ERROR_TASK_HANG = 0x07"
definition ERROR_MEMORY :: u8 where "ERROR_MEMORY = 0x08"

definition BATTERY_CRITICAL :: u16 where "BATTERY_CRITICAL = 3400"

definition UART_RX_BUFFER_SIZE :: nat where "UART_RX_BUFFER_SIZE = 256"

subsection \<open>main.h: TelemetryPacket_t and CommandPacket_t\<close>

text \<open>The four \<open>float\<close> members are kept as their IEEE-754 binary32 bit patterns, which is
  what the memory image and the checksum see. Members whose names occur in both structs
  carry the prefix \<open>tm_\<close> in the telemetry record.\<close>

record TelemetryPacket_t =
  tm_sync1 :: u8
  tm_sync2 :: u8
  packet_type :: u8
  tm_sequence_number :: u16
  timestamp :: u32
  mag_x :: u32
  mag_y :: u32
  mag_z :: u32
  corrosion_raw :: u16
  radiation_cps :: u32
  temperature_bme :: u32
  pressure :: u32
  humidity :: u32
  temperature_tmp :: u32
  latitude :: u32
  longitude :: u32
  altitude :: u32
  gps_quality :: u8
  gps_satellites :: u8
  battery_voltage :: u16
  battery_current :: u16
  tm_boot_count :: u8
  error_flags :: u8
  tm_system_state :: u8
  uptime :: u32
  tm_checksum :: u16

record CommandPacket_t =
  sync1 :: u8
  sync2 :: u8
  command_id :: u8
  sequence_number :: u16
  parameter_length :: u16
  parameters :: "u8 list"
  checksum :: u16

definition sizeof_TelemetryPacket_t :: nat where
  "sizeof_TelemetryPacket_t = 70"

definition sizeof_CommandPacket_t :: nat where
  "sizeof_CommandPacket_t = 73"

text \<open>A \<open>CommandPacket_t\<close> value of the C program always has a 64-element array.\<close>

definition wf_cmd :: "CommandPacket_t \<Rightarrow> bool" where
  "wf_cmd c \<longleftrightarrow> length (parameters c) = 64"

definition bytes_of_telemetry :: "TelemetryPacket_t \<Rightarrow> u8 list" where
  "bytes_of_telemetry p =
     [tm_sync1 p, tm_sync2 p, packet_type p] @ le16 (tm_sequence_number p) @
     le32 (timestamp p) @ le32 (mag_x p) @ le32 (mag_y p) @ le32 (mag_z p) @
     le16 (corrosion_raw p) @ le32 (radiation_cps p) @ le32 (temperature_bme p) @
     le32 (pressure p) @ le32 (humidity p) @ le32 (temperature_tmp p) @
     le32 (latitude p) @ le32 (longitude p) @ le32 (altitude p) @
     [gps_quality p, gps_satellites p] @ le16 (battery_voltage p) @
     le16 (battery_current p) @ [tm_boot_count p, error_flags p, tm_system_state p] @
     le32 (uptime p) @ le16 (tm_checksum p)"

definition bytes_of_cmd :: "CommandPacket_t \<Rightarrow> u8 list" where
  "bytes_of_cmd c =
     [sync1 c, sync2 c, command_id c] @ le16 (sequence_number c) @
     le16 (parameter_length c) @ parameters c @ le16 (checksum c)"

text \<open>The cast \<open>(CommandPacket_t* )rx_buffer\<close>: the struct read back from 73 bytes.\<close>

definition cmd_of_bytes :: "u8 list \<Rightarrow> CommandPacket_t" where
  "cmd_of_bytes bs =
     \<lparr> sync1 = bs ! 0, sync2 = bs ! 1, command_id = bs ! 2,
       sequence_number = u16_of_le (bs ! 3) (bs ! 4),
       parameter_length = u16_of_le (bs ! 5) (bs ! 6),
       parameters = take 64 (drop 7 bs),
       checksum = u16_of_le (bs ! 71) (bs ! 72) \<rparr>"

subsection \<open>main.c: CalculateChecksum\<close>

text \<open>\<open>bytes\<close> is the memory at \<open>data\<close>; the loop adds the first \<open>length\<close> bytes into a
  16-bit accumulator that wraps, and the result is its complement.\<close>

definition CalculateChecksum :: "u8 list \<Rightarrow> u16 \<Rightarrow> u16" where
  "CalculateChecksum bytes len =
     NOT (foldl (\<lambda>checksum b. checksum + ucast b) 0 (take (unat len) bytes))"

subsection \<open>Firmware state and observable effects\<close>

datatype uart = USART1 | USART2
datatype pin = PI_WAKE_PIN | LED_PIN
datatype clock = I2C1_CLK | SPI1_CLK

text \<open>Calls into the HAL and the RTOS are recorded in order. \<open>ParamRead i\<close> records a
  subscript \<open>cmd->parameters[i]\<close> evaluated by the dispatcher.\<close>

datatype event =
    UartTransmit uart "u8 list"
  | GpioWrite pin bool
  | GpioToggle pin
  | ClkDisable clock
  | IwdgRefresh
  | Delay nat
  | SystemReset
  | ParamRead nat

text \<open>The globals of main.c, the statics of communication.c (\<open>rx_buffer\<close>, \<open>rx_index\<close>,
  \<open>expected_length\<close>, \<open>packet_type\<close> as \<open>rx_packet_type\<close>), the two message queues, and
  the variables each task keeps between iterations (\<open>sequence\<close>, \<open>last_count\<close>,
  \<open>last_beacon\<close>).\<close>

record fw =
  system_state :: u8
  boot_count :: u32
  system_uptime :: u32
  current_telemetry :: TelemetryPacket_t
  radiation_pulse_count :: u32
  rx_buffer :: "u8 list"
  rx_index :: u16
  expected_length :: u16
  rx_packet_type :: u8
  telemetryQueue :: "TelemetryPacket_t list"
  commandQueue :: "u8 list list"
  sequence :: u16
  last_count :: u32
  last_beacon :: u32
  events :: "event list"

text \<open>A call either returns, or ends in \<open>NVIC_SystemReset\<close>, which does not return, or
  writes outside \<open>rx_buffer\<close> (undefined behaviour in C).\<close>

datatype outcome = Returned fw | McuReset fw | BufferOverrun

definition emit :: "event list \<Rightarrow> fw \<Rightarrow> fw" where
  "emit es st = st\<lparr>events := events st @ es\<rparr>"

definition zero_telemetry :: TelemetryPacket_t where
  "zero_telemetry =
     \<lparr> tm_sync1 = 0, tm_sync2 = 0, packet_type = 0, tm_sequence_number = 0, timestamp = 0,
       mag_x = 0, mag_y = 0, mag_z = 0, corrosion_raw = 0, radiation_cps = 0,
       temperature_bme = 0, pressure = 0, humidity = 0, temperature_tmp = 0,
       latitude = 0, longitude = 0, altitude = 0, gps_quality = 0, gps_satellites = 0,
       battery_voltage = 0, battery_current = 0, tm_boot_count = 0, error_flags = 0,
       tm_system_state = 0, uptime = 0, tm_checksum = 0 \<rparr>"

text \<open>The state after start-up: static storage is zero, \<open>system_state = STATE_BOOT\<close>.\<close>

definition boot_state :: fw where
  "boot_state =
     \<lparr> system_state = STATE_BOOT, boot_count = 0, system_uptime = 0,
       current_telemetry = zero_telemetry, radiation_pulse_count = 0,
       rx_buffer = replicate UART_RX_BUFFER_SIZE 0, rx_index = 0, expected_length = 0,
       rx_packet_type = 0, telemetryQueue = [], commandQueue = [],
       sequence = 0, last_count = 0, last_beacon = 0, events = [] \<rparr>"

subsection \<open>Message queues\<close>

text \<open>Modelled from the spec: the CMSIS-RTOS queue primitives are only declared here (the
  header under src/ stubs them as the constant 0). A queue is a FIFO of fixed capacity
  (telemetry 10, command 5, as created in \<open>main\<close>); a put with timeout 0 on a full queue
  drops the new item; a message is copied by value, \<open>msg_size\<close> bytes from the pointer.\<close>

definition osMessageQueuePut_telemetry :: "TelemetryPacket_t \<Rightarrow> fw \<Rightarrow> fw" where
  "osMessageQueuePut_telemetry msg st =
     (if length (telemetryQueue st) < 10
      then st\<lparr>telemetryQueue := telemetryQueue st @ [msg]\<rparr> else st)"

definition osMessageQueuePut_command :: "u8 list \<Rightarrow> fw \<Rightarrow> fw" where
  "osMessageQueuePut_command mem st =
     (if length (commandQueue st) < 5
      then st\<lparr>commandQueue := commandQueue st @ [take sizeof_CommandPacket_t mem]\<rparr>
      else st)"

subsection \<open>main.c: LogError, COMM_SendTelemetry, COMM_SendBeacon, ShutdownPayload\<close>

definition LogError :: "u8 \<Rightarrow> fw \<Rightarrow> fw" where
  "LogError error_code st =
     st\<lparr>current_telemetry := (current_telemetry st)
          \<lparr>error_flags := error_flags (current_telemetry st) OR error_code\<rparr>\<rparr>"

text \<open>\<open>COMM_SendTelemetry\<close> writes through its pointer and transmits the struct: the result
  is the updated packet and the bytes put on USART1. \<open>tick\<close> is what \<open>HAL_GetTick\<close>
  returns.\<close>

definition COMM_SendTelemetry :: "u32 \<Rightarrow> TelemetryPacket_t \<Rightarrow> TelemetryPacket_t \<times> u8 list" where
  "COMM_SendTelemetry tick packet =
     (let p = packet\<lparr>tm_sync1 := 0xAA, tm_sync2 := 0x55, packet_type := 0x01,
                     timestamp := tick\<rparr>;
          p' = p\<lparr>tm_checksum :=
                   CalculateChecksum (bytes_of_telemetry p)
                     (of_nat (sizeof_TelemetryPacket_t - 2))\<rparr>
      in (p', take sizeof_TelemetryPacket_t (bytes_of_telemetry p')))"

definition COMM_SendBeacon :: "fw \<Rightarrow> fw" where
  "COMM_SendBeacon st =
     emit [UartTransmit USART2
             [0xAA, 0x59, system_state st,
              ucast (boot_count st AND 0xFF),
              ucast (drop_bit 8 (battery_voltage (current_telemetry st))),
              ucast (battery_voltage (current_telemetry st) AND 0xFF)]] st"

definition ShutdownPayload :: "fw \<Rightarrow> fw" where
  "ShutdownPayload st =
     emit [GpioWrite PI_WAKE_PIN False, ClkDisable I2C1_CLK, ClkDisable SPI1_CLK] st"

subsection \<open>main.c: ProcessCommand\<close>

text \<open>\<open>ERROR_UNKNOWN_COMMAND\<close> is used by the default branch but defined in no header of
  the repository; it is the parameter \<open>err_unknown\<close>. \<open>tick\<close> is the value of
  \<open>HAL_GetTick\<close> seen by \<open>COMM_SendTelemetry\<close>.\<close>

definition ProcessCommand :: "u8 \<Rightarrow> u32 \<Rightarrow> CommandPacket_t \<Rightarrow> fw \<Rightarrow> outcome" where
  "ProcessCommand err_unknown tick cmd st =
     (if sync1 cmd \<noteq> 0xAA \<or> sync2 cmd \<noteq> 0x56 then Returned st
      else if CalculateChecksum (bytes_of_cmd cmd) (of_nat (sizeof_CommandPacket_t - 2))
                \<noteq> checksum cmd
      then Returned (LogError ERROR_UART st)
      else if command_id cmd = CMD_PING then
        Returned (emit [UartTransmit USART1
                          [0xAA, 0x57, 0x01, ucast (sequence_number cmd AND 0xFF)]] st)
      else if command_id cmd = CMD_GET_TELEMETRY then
        (let (p, bytes) = COMM_SendTelemetry tick (current_telemetry st)
         in Returned (emit [UartTransmit USART1 bytes] (st\<lparr>current_telemetry := p\<rparr>)))
      else if command_id cmd = CMD_CAPTURE_IMAGE then
        Returned ((emit [GpioWrite PI_WAKE_PIN True, Delay 100, GpioWrite PI_WAKE_PIN False] st)
                    \<lparr>system_state := STATE_IMAGE_CAPTURE\<rparr>)
      else if command_id cmd = CMD_SET_MODE then
        (if 1 \<le> parameter_length cmd
         then Returned ((emit [ParamRead 0] st)\<lparr>system_state := parameters cmd ! 0\<rparr>)
         else Returned st)
      else if command_id cmd = CMD_RESET then
        McuReset (emit [Delay 100, SystemReset] st)
      else if command_id cmd = CMD_TRANSMIT_FILE then
        Returned (emit [UartTransmit USART1
                          (take sizeof_CommandPacket_t (bytes_of_cmd cmd))] st)
      else Returned (LogError err_unknown st))"

subsection \<open>communication.c: COMM_ProcessReceivedData\<close>

text \<open>\<open>rx_buffer[rx_index++] = data[i]\<close>: a store outside the 256-byte array has no defined
  result.\<close>

definition rx_store :: "u8 \<Rightarrow> fw \<Rightarrow> fw option" where
  "rx_store b st =
     (if unat (rx_index st) < UART_RX_BUFFER_SIZE
      then Some (st\<lparr>rx_buffer := (rx_buffer st)[unat (rx_index st) := b],
                    rx_index := rx_index st + 1\<rparr>)
      else None)"

text \<open>The type-byte test at \<open>rx_index == 2\<close>.\<close>

definition rx_select :: "fw \<Rightarrow> fw" where
  "rx_select st =
     (if rx_index st = 2 then
        (if rx_buffer st ! 1 = 0x55
         then st\<lparr>rx_packet_type := 0x01,
                 expected_length := of_nat sizeof_TelemetryPacket_t\<rparr>
         else if rx_buffer st ! 1 = 0x56
         then st\<lparr>rx_packet_type := 0x02,
                 expected_length := of_nat sizeof_CommandPacket_t\<rparr>
         else st\<lparr>rx_index := 0\<rparr>)
      else st)"

text \<open>The completion test at the end of the loop body.\<close>

definition rx_complete :: "fw \<Rightarrow> fw" where
  "rx_complete st =
     (if expected_length st \<le> rx_index st \<and> 0 < expected_length st then
        (if rx_packet_type st = 0x02 then osMessageQueuePut_command (rx_buffer st) st else st)
          \<lparr>rx_index := 0, expected_length := 0\<rparr>
      else st)"

text \<open>One pass of the loop body for the byte \<open>b = data[i]\<close>.\<close>

definition rx_byte :: "u8 \<Rightarrow> fw \<Rightarrow> fw option" where
  "rx_byte b st =
     (case rx_store b st of
        None \<Rightarrow> None
      | Some s1 \<Rightarrow>
          if rx_index s1 = 1 \<and> rx_buffer s1 ! 0 \<noteq> 0xAA
          then Some (s1\<lparr>rx_index := 0\<rparr>)
          else Some (rx_complete (rx_select s1)))"

text \<open>\<open>data\<close> holds the \<open>length\<close> bytes the caller passes (\<open>length\<close> is a \<open>uint16_t\<close>, so
  fewer than 65536), in a buffer distinct from \<open>rx_buffer\<close>.\<close>

fun COMM_ProcessReceivedData :: "u8 list \<Rightarrow> fw \<Rightarrow> fw option" where
  "COMM_ProcessReceivedData [] st = Some st"
| "COMM_ProcessReceivedData (b # data) st =
     (case rx_byte b st of
        None \<Rightarrow> None
      | Some st' \<Rightarrow> COMM_ProcessReceivedData data st')"

text \<open>communication.c's receive-complete callback passes \<open>rx_buffer\<close> itself with length 1:
  the single byte read is \<open>rx_buffer[0]\<close>, where \<open>HAL_UART_Receive_IT(&huart1, rx_buffer, 1)\<close>
  has put the received byte \<open>b\<close>.\<close>

definition HAL_UART_RxCpltCallback :: "uart \<Rightarrow> u8 \<Rightarrow> fw \<Rightarrow> fw option" where
  "HAL_UART_RxCpltCallback instance b st =
     (if instance = USART1 then
        (let st' = st\<lparr>rx_buffer := (rx_buffer st)[0 := b]\<rparr>
         in COMM_ProcessReceivedData [rx_buffer st' ! 0] st')
      else Some st)"

subsection \<open>main.c: interrupt handlers and the radiation counter\<close>

definition RADIATION_PIN :: u16 where "RADIATION_PIN = 0x0001"

definition HAL_GPIO_EXTI_Callback :: "u16 \<Rightarrow> fw \<Rightarrow> fw" where
  "HAL_GPIO_EXTI_Callback GPIO_Pin st =
     (if GPIO_Pin = RADIATION_PIN
      then st\<lparr>radiation_pulse_count := radiation_pulse_count st + 1\<rparr> else st)"

definition Get_Radiation_Counts :: "fw \<Rightarrow> u32" where
  "Get_Radiation_Counts st = radiation_pulse_count st"

definition Reset_Radiation_Counter :: "fw \<Rightarrow> fw" where
  "Reset_Radiation_Counter st = st\<lparr>radiation_pulse_count := 0\<rparr>"

definition SYSTEM_Init :: "fw \<Rightarrow> fw" where
  "SYSTEM_Init st = st\<lparr>boot_count := boot_count st + 1\<rparr>"

subsection \<open>main.c: one iteration of each task loop\<close>

text \<open>\<open>RadiationTask\<close>: the body of \<open>while(1)\<close>.\<close>

definition RadiationTask :: "fw \<Rightarrow> fw" where
  "RadiationTask st =
     (let current_count = Get_Radiation_Counts st
      in emit [Delay 1000]
           (st\<lparr>current_telemetry := (current_telemetry st)
                  \<lparr>radiation_cps := current_count - last_count st\<rparr>,
               last_count := current_count\<rparr>))"

text \<open>Comparison of a binary32 bit pattern with the constants \<open>70.0f\<close> (\<open>0x428C0000\<close>) and
  \<open>-20.0f\<close> (\<open>0xC1A00000\<close>): a NaN compares false; among non-NaN values of one sign the
  order is the order of the magnitude bits.\<close>

definition f32_is_nan :: "u32 \<Rightarrow> bool" where
  "f32_is_nan w \<longleftrightarrow> 0x7F800000 < (w AND 0x7FFFFFFF)"

definition f32_gt_70 :: "u32 \<Rightarrow> bool" where
  "f32_gt_70 w \<longleftrightarrow> \<not> f32_is_nan w \<and> \<not> bit w 31 \<and> 0x428C0000 < w"

definition f32_lt_minus_20 :: "u32 \<Rightarrow> bool" where
  "f32_lt_minus_20 w \<longleftrightarrow> \<not> f32_is_nan w \<and> bit w 31 \<and> 0x41A00000 < (w AND 0x7FFFFFFF)"

text \<open>\<open>WatchdogTask\<close>, first \<open>if\<close>: the battery rule.\<close>

definition WatchdogTask_battery :: "fw \<Rightarrow> fw" where
  "WatchdogTask_battery st =
     (if battery_voltage (current_telemetry st) < BATTERY_CRITICAL
      then ShutdownPayload (st\<lparr>system_state := STATE_LOW_POWER\<rparr>)
      else st)"

text \<open>\<open>WatchdogTask\<close>, second \<open>if\<close>: the temperature rule.\<close>

definition WatchdogTask_temperature :: "fw \<Rightarrow> fw" where
  "WatchdogTask_temperature st =
     (if f32_gt_70 (temperature_bme (current_telemetry st)) \<or>
         f32_lt_minus_20 (temperature_bme (current_telemetry st))
      then LogError ERROR_TEMPERATURE (st\<lparr>system_state := STATE_SAFE\<rparr>)
      else st)"

text \<open>\<open>WatchdogTask\<close>: the body of \<open>while(1)\<close>.\<close>

definition WatchdogTask :: "fw \<Rightarrow> fw" where
  "WatchdogTask st =
     (let s1 = WatchdogTask_temperature (WatchdogTask_battery st);
          s2 = emit [IwdgRefresh] s1;
          s3 = s2\<lparr>system_uptime := system_uptime s2 + 5\<rparr>
      in emit [Delay 5000] s3)"

text \<open>\<open>CommTask\<close>, last \<open>if\<close>: the beacon check. \<open>now\<close> is \<open>HAL_GetTick\<close> in the condition,
  \<open>now'\<close> the one stored into \<open>last_beacon\<close>.\<close>

definition CommTask_beacon :: "u32 \<Rightarrow> u32 \<Rightarrow> fw \<Rightarrow> fw" where
  "CommTask_beacon now now' st =
     (if 30000 < now - last_beacon st \<and>
         (system_state st = STATE_NOMINAL \<or> system_state st = STATE_IDLE)
      then (COMM_SendBeacon st)\<lparr>last_beacon := now'\<rparr>
      else st)"

text \<open>\<open>CommTask\<close>: the body of \<open>while(1)\<close>. A queue get with its 10 ms timeout is taken to
  succeed exactly when the queue holds a message. \<open>t_tx\<close> and \<open>t_cmd\<close> are the ticks seen
  by the two possible calls of \<open>COMM_SendTelemetry\<close>.\<close>

definition CommTask :: "u8 \<Rightarrow> u32 \<Rightarrow> u32 \<Rightarrow> u32 \<Rightarrow> u32 \<Rightarrow> fw \<Rightarrow> outcome" where
  "CommTask err_unknown t_tx t_cmd now now' st =
     (let s1 = (case telemetryQueue st of
                  [] \<Rightarrow> st
                | tx_packet # q \<Rightarrow>
                    emit [UartTransmit USART1 (snd (COMM_SendTelemetry t_tx tx_packet))]
                      (st\<lparr>telemetryQueue := q\<rparr>));
          r2 = (case commandQueue s1 of
                  [] \<Rightarrow> Returned s1
                | c # q \<Rightarrow>
                    ProcessCommand err_unknown t_cmd (cmd_of_bytes c) (s1\<lparr>commandQueue := q\<rparr>))
      in case r2 of
           Returned s2 \<Rightarrow> Returned (emit [Delay 100] (CommTask_beacon now now' s2))
         | McuReset s2 \<Rightarrow> McuReset s2
         | BufferOverrun \<Rightarrow> BufferOverrun)"

text \<open>The sensor drivers are collaborators outside the core: each call of a \<open>..._Read\<close>
  function either delivers values (\<open>HAL_OK\<close>) or leaves its destinations untouched.\<close>

record sensor_inputs =
  in_mag :: "(u32 \<times> u32 \<times> u32) option"
  in_bme :: "(u32 \<times> u32 \<times> u32) option"
  in_tmp :: "u32 option"
  in_mcp3008 :: u16
  in_adc :: "u32 option"

definition Read_Battery_Voltage :: "u32 option \<Rightarrow> u16" where
  "Read_Battery_Voltage adc =
     (case adc of
        Some adc_value \<Rightarrow> ucast ((adc_value * 3300 * 2) div 4096)
      | None \<Rightarrow> 0)"

definition Read_Battery_Current :: u16 where
  "Read_Battery_Current = 0"

text \<open>\<open>SensorTask\<close>: the body of \<open>while(1)\<close>.\<close>

definition SensorTask :: "sensor_inputs \<Rightarrow> fw \<Rightarrow> fw" where
  "SensorTask inp st =
     (let t0 = current_telemetry st;
          t1 = (case in_mag inp of
                  Some (mx, my, mz) \<Rightarrow> t0\<lparr>mag_x := mx, mag_y := my, mag_z := mz\<rparr>
                | None \<Rightarrow> t0);
          t2 = (case in_bme inp of
                  Some (temp, press, hum) \<Rightarrow>
                    t1\<lparr>temperature_bme := temp, pressure := press, humidity := hum\<rparr>
                | None \<Rightarrow> t1);
          t3 = (case in_tmp inp of
                  Some temp \<Rightarrow> t2\<lparr>temperature_tmp := temp\<rparr>
                | None \<Rightarrow> t2);
          t4 = t3\<lparr>corrosion_raw := in_mcp3008 inp,
                  battery_voltage := Read_Battery_Voltage (in_adc inp),
                  battery_current := Read_Battery_Current,
                  tm_sequence_number := sequence st,
                  tm_boot_count := ucast (boot_count st),
                  tm_system_state := system_state st,
                  uptime := system_uptime st\<rparr>;
          s1 = st\<lparr>current_telemetry := t4, sequence := sequence st + 1\<rparr>
      in emit [GpioToggle LED_PIN, Delay 1000] (osMessageQueuePut_telemetry t4 s1))"

subsection \<open>The operations of the core\<close>

datatype core_op =
    Op_LogError u8
  | Op_ProcessCommand u8 u32 CommandPacket_t
  | Op_COMM_SendBeacon
  | Op_ShutdownPayload
  | Op_COMM_ProcessReceivedData "u8 list"
  | Op_HAL_UART_RxCpltCallback uart u8
  | Op_HAL_GPIO_EXTI_Callback u16
  | Op_Reset_Radiation_Counter
  | Op_SYSTEM_Init
  | Op_SensorTask sensor_inputs
  | Op_RadiationTask
  | Op_CommTask u8 u32 u32 u32 u32
  | Op_WatchdogTask

definition of_rx :: "fw option \<Rightarrow> outcome" where
  "of_rx r = (case r of None \<Rightarrow> BufferOverrun | Some st \<Rightarrow> Returned st)"

fun run_op :: "core_op \<Rightarrow> fw \<Rightarrow> outcome" where
  "run_op (Op_LogError e) st = Returned (LogError e st)"
| "run_op (Op_ProcessCommand e tick cmd) st = ProcessCommand e tick cmd st"
| "run_op Op_COMM_SendBeacon st = Returned (COMM_SendBeacon st)"
| "run_op Op_ShutdownPayload st = Returned (ShutdownPayload st)"
| "run_op (Op_COMM_ProcessReceivedData data) st = of_rx (COMM_ProcessReceivedData data st)"
| "run_op (Op_HAL_UART_RxCpltCallback u b) st = of_rx (HAL_UART_RxCpltCallback u b st)"
| "run_op (Op_HAL_GPIO_EXTI_Callback p) st = Returned (HAL_GPIO_EXTI_Callback p st)"
| "run_op Op_Reset_Radiation_Counter st = Returned (Reset_Radiation_Counter st)"
| "run_op Op_SYSTEM_Init st = Returned (SYSTEM_Init st)"
| "run_op (Op_SensorTask inp) st = Returned (SensorTask inp st)"
| "run_op Op_RadiationTask st = Returned (RadiationTask st)"
| "run_op (Op_CommTask e t1 t2 t3 t4) st = CommTask e t1 t2 t3 t4 st"
| "run_op Op_WatchdogTask st = Returned (WatchdogTask st)"

text \<open>A run of operations; it ends at the first one that does not return.\<close>

fun run_ops :: "core_op list \<Rightarrow> fw \<Rightarrow> outcome" where
  "run_ops [] st = Returned st"
| "run_ops (op # ops) st =
     (case run_op op st of
        Returned st' \<Rightarrow> run_ops ops st'
      | McuReset st' \<Rightarrow> McuReset st'
      | BufferOverrun \<Rightarrow> BufferOverrun)"

text \<open>Number of \<open>ShutdownPayload\<close> calls in a trace: it is the only function that disables the
  I2C1 clock, once per call.\<close>

definition shutdown_calls :: "event list \<Rightarrow> nat" where
  "shutdown_calls es = length (filter (\<lambda>e. e = ClkDisable I2C1_CLK) es)"

subsection \<open>Predicates used in the statements\<close>

text \<open>The test \<open>ProcessCommand\<close> applies to a packet: the checksum of all bytes but the last
  two equals the \<open>checksum\<close> member.\<close>

definition checksum_valid :: "CommandPacket_t \<Rightarrow> bool" where
  "checksum_valid cmd \<longleftrightarrow>
     CalculateChecksum (bytes_of_cmd cmd) (of_nat (sizeof_CommandPacket_t - 2)) = checksum cmd"

text \<open>Between two bytes the parser is either before a frame (no length selected, at most the
  sync byte stored) or inside one (a length selected, at least the two header bytes stored,
  the frame not yet complete); the buffer keeps its 256 bytes.\<close>

definition rx_inv :: "fw \<Rightarrow> bool" where
  "rx_inv st \<longleftrightarrow>
     length (rx_buffer st) = UART_RX_BUFFER_SIZE \<and>
     ((expected_length st = 0 \<and> unat (rx_index st) \<le> 1) \<or>
      ((expected_length st = 70 \<or> expected_length st = 73) \<and>
       2 \<le> unat (rx_index st) \<and> unat (rx_index st) < unat (expected_length st)))"

text \<open>\<open>buf\<close> with the bytes \<open>data\<close> stored from index \<open>k\<close> on.\<close>

definition rx_fill :: "nat \<Rightarrow> u8 list \<Rightarrow> u8 list \<Rightarrow> u8 list" where
  "rx_fill k data buf = take k buf @ data @ drop (k + length data) buf"

section \<open>Properties\<close>

subsection \<open>Auxiliary facts\<close>

lemma uint_sub_u32: "uint (a - b :: u32) = (uint a - uint b) mod 4294967296"
  by (simp add: uint_word_ariths)

lemma RadiationTask_cps:
  "radiation_cps (current_telemetry (RadiationTask st)) = radiation_pulse_count st - last_count st"
  by (simp add: RadiationTask_def Get_Radiation_Counts_def emit_def Let_def)

subsection \<open>Radiation rate\<close>

text \<open>C6. One pass of \<open>RadiationTask\<close> stores into \<open>radiation_cps\<close> the difference of the
  counter just read and the previous read, computed in \<open>uint32_t\<close>: it is the difference
  modulo \<open>2^32\<close>, hence never negative, also when the counter has wrapped in between; the
  read becomes the next pass's \<open>last_count\<close>. With reads of 100 and then 137 the second
  pass reports 37.\<close>

theorem RadiationTask_modular_delta:
  "radiation_cps (current_telemetry (RadiationTask st))
     = radiation_pulse_count st - last_count st
   \<and> int (unat (radiation_cps (current_telemetry (RadiationTask st))))
     = (int (unat (radiation_pulse_count st)) - int (unat (last_count st))) mod 2 ^ 32
   \<and> 0 \<le> uint (radiation_cps (current_telemetry (RadiationTask st)))
   \<and> last_count (RadiationTask st) = radiation_pulse_count st
   \<and> radiation_cps (current_telemetry (RadiationTask
        ((RadiationTask (st\<lparr>radiation_pulse_count := 100\<rparr>))
           \<lparr>radiation_pulse_count := 137\<rparr>))) = 37"
proof -
  have "last_count (RadiationTask st) = radiation_pulse_count st"
    by (simp add: RadiationTask_def Get_Radiation_Counts_def emit_def Let_def)
  moreover have "radiation_cps (current_telemetry (RadiationTask
        ((RadiationTask (st\<lparr>radiation_pulse_count := 100\<rparr>))
           \<lparr>radiation_pulse_count := 137\<rparr>))) = 37"
    by (simp add: RadiationTask_def Get_Radiation_Counts_def emit_def Let_def)
  ultimately show ?thesis
    by (simp add: RadiationTask_cps uint_sub_u32)
qed

subsection \<open>Error codes are not bit masks\<close>

text \<open>C10. \<open>LogError\<close> ORs the numeric code into \<open>error_flags\<close>. Logging \<open>ERROR_UART\<close>
  (0x03) gives the same state as logging \<open>ERROR_I2C\<close> (0x01) and then \<open>ERROR_SPI\<close> (0x02):
  for every previous value \<open>f\<close> of the flags the result is \<open>(f OR 0x01) OR 0x02\<close>, so the
  flags byte does not tell the two histories apart.\<close>

theorem LogError_uart_is_i2c_and_spi:
  "LogError ERROR_UART st = LogError ERROR_SPI (LogError ERROR_I2C st)
   \<and> error_flags (current_telemetry (LogError ERROR_UART st))
       = (error_flags (current_telemetry st) OR 0x01) OR 0x02"
  by (simp add: LogError_def ERROR_UART_def ERROR_SPI_def ERROR_I2C_def or.assoc)

subsection \<open>Sticky error flags\<close>

lemma rx_byte_telemetry: "rx_byte b st = Some st' \<Longrightarrow> current_telemetry st' = current_telemetry st"
  by (auto simp: rx_byte_def rx_store_def rx_select_def rx_complete_def
        osMessageQueuePut_command_def split: if_splits option.splits)

lemma COMM_ProcessReceivedData_telemetry:
  "COMM_ProcessReceivedData data st = Some st' \<Longrightarrow> current_telemetry st' = current_telemetry st"
proof (induction data arbitrary: st)
  case Nil
  then show ?case by simp
next
  case (Cons b data)
  then show ?case by (auto split: option.splits dest: rx_byte_telemetry)
qed

lemma HAL_UART_RxCpltCallback_telemetry:
  assumes "HAL_UART_RxCpltCallback u b st = Some st'"
  shows "current_telemetry st' = current_telemetry st"
proof (cases "u = USART1")
  case True
  define s0 where "s0 = st\<lparr>rx_buffer := (rx_buffer st)[0 := b]\<rparr>"
  from True assms have "COMM_ProcessReceivedData [rx_buffer s0 ! 0] s0 = Some st'"
    by (simp add: HAL_UART_RxCpltCallback_def Let_def s0_def)
  from COMM_ProcessReceivedData_telemetry [OF this] show ?thesis by (simp add: s0_def)
next
  case False
  with assms show ?thesis by (simp add: HAL_UART_RxCpltCallback_def)
qed

lemma COMM_SendTelemetry_flags:
  "error_flags (fst (COMM_SendTelemetry t p)) = error_flags p"
  by (simp add: COMM_SendTelemetry_def Let_def)

lemma ProcessCommand_flags:
  assumes "ProcessCommand e t c st = Returned st' \<or> ProcessCommand e t c st = McuReset st'"
  shows "\<exists>m. error_flags (current_telemetry st') = error_flags (current_telemetry st) OR m"
proof -
  have z: "error_flags (current_telemetry st) = error_flags (current_telemetry st) OR 0" by simp
  from assms consider
      "current_telemetry st' = current_telemetry st"
    | "st' = LogError ERROR_UART st" | "st' = LogError e st"
    | "error_flags (current_telemetry st') = error_flags (current_telemetry st)"
    by (auto simp: ProcessCommand_def emit_def COMM_SendTelemetry_def Let_def split: if_splits)
  then show ?thesis
  proof cases
    case 1 then show ?thesis using z by metis
  next
    case 2 then show ?thesis by (auto simp: LogError_def)
  next
    case 3 then show ?thesis by (auto simp: LogError_def)
  next
    case 4 then show ?thesis using z by metis
  qed
qed

lemma CommTask_beacon_telemetry: "current_telemetry (CommTask_beacon a b st) = current_telemetry st"
  by (simp add: CommTask_beacon_def COMM_SendBeacon_def emit_def)

lemma CommTask_flags:
  assumes "CommTask e t1 t2 t3 t4 st = Returned st' \<or> CommTask e t1 t2 t3 t4 st = McuReset st'"
  shows "\<exists>m. error_flags (current_telemetry st') = error_flags (current_telemetry st) OR m"
proof -
  define s1 where "s1 = (case telemetryQueue st of
                  [] \<Rightarrow> st
                | tx_packet # q \<Rightarrow>
                    emit [UartTransmit USART1 (snd (COMM_SendTelemetry t1 tx_packet))]
                      (st\<lparr>telemetryQueue := q\<rparr>))"
  have s1: "current_telemetry s1 = current_telemetry st"
    by (simp add: s1_def emit_def split: list.splits)
  show ?thesis
  proof (cases "commandQueue s1")
    case Nil
    with assms have "st' = emit [Delay 100] (CommTask_beacon t3 t4 s1)"
      by (auto simp: CommTask_def Let_def s1_def)
    then have "current_telemetry st' = current_telemetry st"
      by (simp add: emit_def CommTask_beacon_telemetry s1)
    then have "error_flags (current_telemetry st') = error_flags (current_telemetry st) OR 0" by simp
    then show ?thesis by blast
  next
    case (Cons c q)
    define r where "r = ProcessCommand e t2 (cmd_of_bytes c) (s1\<lparr>commandQueue := q\<rparr>)"
    from assms Cons have "(\<exists>s2. r = Returned s2 \<and> st' = emit [Delay 100] (CommTask_beacon t3 t4 s2))
       \<or> r = McuReset st'"
      by (auto simp: CommTask_def Let_def s1_def r_def split: outcome.splits)
    then show ?thesis
    proof
      assume "\<exists>s2. r = Returned s2 \<and> st' = emit [Delay 100] (CommTask_beacon t3 t4 s2)"
      then obtain s2 where a: "r = Returned s2" and b: "st' = emit [Delay 100] (CommTask_beacon t3 t4 s2)" by blast
      from a have "\<exists>m. error_flags (current_telemetry s2) = error_flags (current_telemetry (s1\<lparr>commandQueue := q\<rparr>)) OR m"
        unfolding r_def by (intro ProcessCommand_flags disjI1)
      moreover have "current_telemetry st' = current_telemetry s2"
        using b by (simp add: emit_def CommTask_beacon_telemetry)
      ultimately show ?thesis by (simp add: s1)
    next
      assume "r = McuReset st'"
      then have "\<exists>m. error_flags (current_telemetry st') = error_flags (current_telemetry (s1\<lparr>commandQueue := q\<rparr>)) OR m"
        unfolding r_def by (intro ProcessCommand_flags disjI2)
      then show ?thesis by (simp add: s1)
    qed
  qed
qed

lemma WatchdogTask_flags:
  "\<exists>m. error_flags (current_telemetry (WatchdogTask st)) = error_flags (current_telemetry st) OR m"
proof -
  have "error_flags (current_telemetry (WatchdogTask st)) = error_flags (current_telemetry st) OR 0
      \<or> error_flags (current_telemetry (WatchdogTask st)) = error_flags (current_telemetry st) OR ERROR_TEMPERATURE"
    by (simp add: WatchdogTask_def WatchdogTask_temperature_def WatchdogTask_battery_def
          ShutdownPayload_def LogError_def emit_def Let_def)
  then show ?thesis by blast
qed

lemma SensorTask_flags:
  "error_flags (current_telemetry (SensorTask inp st)) = error_flags (current_telemetry st)"
  by (simp add: SensorTask_def osMessageQueuePut_telemetry_def emit_def Let_def
        split: option.splits prod.splits)

lemma run_op_flags:
  assumes "run_op op st = Returned st' \<or> run_op op st = McuReset st'"
  shows "\<exists>m. error_flags (current_telemetry st') = error_flags (current_telemetry st) OR m"
proof -
  have z: "\<exists>m. error_flags (current_telemetry s') = error_flags (current_telemetry st) OR m"
    if "current_telemetry s' = current_telemetry st" for s' :: fw
  proof -
    from that have "error_flags (current_telemetry s') = error_flags (current_telemetry st) OR 0"
      by simp
    then show ?thesis by blast
  qed
  show ?thesis
  proof (cases op)
    case (Op_LogError e)
    with assms show ?thesis by (auto simp: LogError_def)
  next
    case (Op_ProcessCommand e t c)
    with assms show ?thesis by (simp add: ProcessCommand_flags)
  next
    case Op_COMM_SendBeacon
    with assms show ?thesis by (intro z) (auto simp: COMM_SendBeacon_def emit_def)
  next
    case Op_ShutdownPayload
    with assms show ?thesis by (intro z) (auto simp: ShutdownPayload_def emit_def)
  next
    case (Op_COMM_ProcessReceivedData data)
    with assms show ?thesis
      by (intro z) (auto simp: of_rx_def split: option.splits
            dest: COMM_ProcessReceivedData_telemetry)
  next
    case (Op_HAL_UART_RxCpltCallback u b)
    with assms show ?thesis
      by (intro z) (auto simp: of_rx_def split: option.splits
            dest: HAL_UART_RxCpltCallback_telemetry)
  next
    case (Op_HAL_GPIO_EXTI_Callback p)
    with assms show ?thesis by (intro z) (auto simp: HAL_GPIO_EXTI_Callback_def)
  next
    case Op_Reset_Radiation_Counter
    with assms show ?thesis by (intro z) (auto simp: Reset_Radiation_Counter_def)
  next
    case Op_SYSTEM_Init
    with assms show ?thesis by (intro z) (auto simp: SYSTEM_Init_def)
  next
    case (Op_SensorTask inp)
    with assms have "st' = SensorTask inp st" by auto
    then have "error_flags (current_telemetry st') = error_flags (current_telemetry st) OR 0"
      by (simp add: SensorTask_flags)
    then show ?thesis by blast
  next
    case Op_RadiationTask
    with assms have "st' = RadiationTask st" by auto
    then have "error_flags (current_telemetry st') = error_flags (current_telemetry st) OR 0"
      by (simp add: RadiationTask_def emit_def Let_def)
    then show ?thesis by blast
  next
    case (Op_CommTask e t1 t2 t3 t4)
    with assms show ?thesis by (simp add: CommTask_flags)
  next
    case Op_WatchdogTask
    with assms show ?thesis using WatchdogTask_flags by auto
  qed
qed

lemma run_ops_flags:
  "run_ops ops st = Returned st' \<or> run_ops ops st = McuReset st' \<Longrightarrow>
   \<exists>m. error_flags (current_telemetry st') = error_flags (current_telemetry st) OR m"
proof (induction ops arbitrary: st)
  case Nil
  then have "error_flags (current_telemetry st') = error_flags (current_telemetry st) OR 0"
    by simp
  then show ?case by blast
next
  case (Cons op ops)
  show ?case
  proof (cases "run_op op st")
    case (Returned s1)
    with Cons.prems have "run_ops ops s1 = Returned st' \<or> run_ops ops s1 = McuReset st'"
      by simp
    from Cons.IH [OF this] obtain m where
      m: "error_flags (current_telemetry st') = error_flags (current_telemetry s1) OR m" ..
    from Returned run_op_flags [of op st s1] obtain k where
      k: "error_flags (current_telemetry s1) = error_flags (current_telemetry st) OR k" by auto
    have "error_flags (current_telemetry st') = error_flags (current_telemetry st) OR (k OR m)"
      by (simp add: m k or.assoc)
    then show ?thesis by blast
  next
    case (McuReset s1)
    with Cons.prems have "st' = s1" by simp
    with McuReset run_op_flags [of op st st'] show ?thesis by auto
  next
    case BufferOverrun
    with Cons.prems show ?thesis by simp
  qed
qed

text \<open>C7. Along every run of operations of the core, from any state (so from every reachable
  one), up to and including an operation that ends in a reset: the final \<open>error_flags\<close> is the
  initial value ORed with some mask, and every bit that was set is still set. Nothing clears
  a bit of \<open>current_telemetry.error_flags\<close>.\<close>

theorem error_flags_sticky:
  assumes "run_ops ops st = Returned st' \<or> run_ops ops st = McuReset st'"
  shows "(\<exists>m. error_flags (current_telemetry st') = error_flags (current_telemetry st) OR m)
    \<and> (\<forall>n. bit (error_flags (current_telemetry st)) n \<longrightarrow> bit (error_flags (current_telemetry st')) n)"
proof -
  from run_ops_flags [OF assms] obtain m where
    "error_flags (current_telemetry st') = error_flags (current_telemetry st) OR m" ..
  then show ?thesis by (auto simp: bit_or_iff)
qed

theorem error_flags_sticky_witness:
  "run_ops [Op_LogError ERROR_UART, Op_WatchdogTask, Op_RadiationTask] boot_state
     = Returned (RadiationTask (WatchdogTask (LogError ERROR_UART boot_state)))
   \<and> bit (error_flags (current_telemetry (LogError ERROR_UART boot_state))) 0
   \<and> bit (error_flags (current_telemetry (RadiationTask (WatchdogTask (LogError ERROR_UART boot_state))))) 0"
proof -
  have r: "run_ops [Op_WatchdogTask, Op_RadiationTask] (LogError ERROR_UART boot_state)
     = Returned (RadiationTask (WatchdogTask (LogError ERROR_UART boot_state)))" by simp
  have b: "bit (error_flags (current_telemetry (LogError ERROR_UART boot_state))) 0"
    by (simp add: LogError_def boot_state_def zero_telemetry_def ERROR_UART_def)
  from error_flags_sticky [OF disjI1 [OF r]] b show ?thesis by simp
qed

subsection \<open>Command identifiers without a case\<close>

lemmas cmd_ids = CMD_PING_def CMD_GET_TELEMETRY_def CMD_CAPTURE_IMAGE_def CMD_SET_MODE_def
  CMD_RESET_def CMD_TRANSMIT_FILE_def CMD_UPDATE_FIRMWARE_def CMD_SET_SCHEDULE_def CMD_BEACON_def

lemma ProcessCommand_default:
  assumes "sync1 cmd = 0xAA" and "sync2 cmd = 0x56" and "checksum_valid cmd"
    and "command_id cmd \<notin> {CMD_PING, CMD_GET_TELEMETRY, CMD_CAPTURE_IMAGE, CMD_SET_MODE,
           CMD_RESET, CMD_TRANSMIT_FILE}"
  shows "ProcessCommand e tick cmd st = Returned (LogError e st)"
  using assms by (simp add: ProcessCommand_def checksum_valid_def)

text \<open>C8 (as the code has it). A checksum-valid command whose \<open>command_id\<close> is
  \<open>CMD_UPDATE_FIRMWARE\<close> (0x07), \<open>CMD_SET_SCHEDULE\<close> (0x08) or \<open>CMD_BEACON\<close> (0x09) takes the
  \<open>default\<close> branch of the switch, exactly as an identifier outside 0x01..0x09 does:
  \<open>ERROR_UNKNOWN_COMMAND\<close> is ORed into \<open>error_flags\<close>, and neither \<open>system_state\<close> nor the
  trace of effects changes.\<close>

theorem ProcessCommand_unimplemented_ids:
  assumes "sync1 cmd = 0xAA" and "sync2 cmd = 0x56" and "checksum_valid cmd"
    and "command_id cmd \<in> {CMD_UPDATE_FIRMWARE, CMD_SET_SCHEDULE, CMD_BEACON} \<or>
         command_id cmd \<notin> {CMD_PING, CMD_GET_TELEMETRY, CMD_CAPTURE_IMAGE, CMD_SET_MODE,
           CMD_RESET, CMD_TRANSMIT_FILE, CMD_UPDATE_FIRMWARE, CMD_SET_SCHEDULE, CMD_BEACON}"
  shows "ProcessCommand e tick cmd st = Returned (LogError e st)
     \<and> error_flags (current_telemetry (LogError e st)) = error_flags (current_telemetry st) OR e
     \<and> system_state (LogError e st) = system_state st
     \<and> events (LogError e st) = events st"
proof -
  from assms(4) have "command_id cmd \<notin> {CMD_PING, CMD_GET_TELEMETRY, CMD_CAPTURE_IMAGE,
      CMD_SET_MODE, CMD_RESET, CMD_TRANSMIT_FILE}"
    by (auto simp: cmd_ids)
  from ProcessCommand_default [OF assms(1-3) this] show ?thesis
    by (simp add: LogError_def)
qed

lemma sum_replicate_zero: "foldl (\<lambda>checksum b. checksum + ucast b) (a :: u16) (replicate n (0 :: u8)) = a"
  by (induction n) simp_all

lemma checksum_valid_test:
  "c = NOT (0x100 + ucast i) \<Longrightarrow>
   checksum_valid \<lparr>sync1 = 0xAA, sync2 = 0x56, command_id = i, sequence_number = 0,
       parameter_length = 0, parameters = replicate 64 0, checksum = c\<rparr>"
  by (simp add: checksum_valid_def CalculateChecksum_def bytes_of_cmd_def le16_def
        sizeof_CommandPacket_t_def sum_replicate_zero)

theorem ProcessCommand_unimplemented_ids_witness:
  "ProcessCommand 0x09 0 \<lparr>sync1 = 0xAA, sync2 = 0x56, command_id = 0x07, sequence_number = 0,
       parameter_length = 0, parameters = replicate 64 0, checksum = 0xFEF8\<rparr> boot_state
     = Returned (LogError 0x09 boot_state)
   \<and> error_flags (current_telemetry (LogError 0x09 boot_state)) = 0x09"
proof -
  have v: "checksum_valid \<lparr>sync1 = 0xAA, sync2 = 0x56, command_id = 0x07, sequence_number = 0,
       parameter_length = 0, parameters = replicate 64 0, checksum = 0xFEF8\<rparr>"
    by (rule checksum_valid_test) simp
  have "ProcessCommand 0x09 0 \<lparr>sync1 = 0xAA, sync2 = 0x56, command_id = 0x07, sequence_number = 0,
       parameter_length = 0, parameters = replicate 64 0, checksum = 0xFEF8\<rparr> boot_state
     = Returned (LogError 0x09 boot_state)
     \<and> error_flags (current_telemetry (LogError 0x09 boot_state)) = error_flags (current_telemetry boot_state) OR 0x09
     \<and> system_state (LogError 0x09 boot_state) = system_state boot_state
     \<and> events (LogError 0x09 boot_state) = events boot_state"
    by (rule ProcessCommand_unimplemented_ids) (simp_all add: v cmd_ids)
  then show ?thesis by (simp add: boot_state_def zero_telemetry_def)
qed

text \<open>C8 as stated fails: whatever value \<open>ERROR_UNKNOWN_COMMAND\<close> has, the code cannot both
  do nothing for identifier 0x07 and do something for the unassigned identifier 0x0A.\<close>

theorem ProcessCommand_unimplemented_ids_counterexample:
  "\<not> (\<exists>e. ProcessCommand e 0 \<lparr>sync1 = 0xAA, sync2 = 0x56, command_id = 0x07,
               sequence_number = 0, parameter_length = 0, parameters = replicate 64 0,
               checksum = 0xFEF8\<rparr> boot_state = Returned boot_state
          \<and> ProcessCommand e 0 \<lparr>sync1 = 0xAA, sync2 = 0x56, command_id = 0x0A,
               sequence_number = 0, parameter_length = 0, parameters = replicate 64 0,
               checksum = 0xFEF5\<rparr> boot_state \<noteq> Returned boot_state)"
proof -
  have v7: "checksum_valid \<lparr>sync1 = 0xAA, sync2 = 0x56, command_id = 0x07, sequence_number = 0,
       parameter_length = 0, parameters = replicate 64 0, checksum = 0xFEF8\<rparr>"
    by (rule checksum_valid_test) simp
  have vA: "checksum_valid \<lparr>sync1 = 0xAA, sync2 = 0x56, command_id = 0x0A, sequence_number = 0,
       parameter_length = 0, parameters = replicate 64 0, checksum = 0xFEF5\<rparr>"
    by (rule checksum_valid_test) simp
  have a: "ProcessCommand e 0 \<lparr>sync1 = 0xAA, sync2 = 0x56, command_id = 0x07,
               sequence_number = 0, parameter_length = 0, parameters = replicate 64 0,
               checksum = 0xFEF8\<rparr> boot_state = Returned (LogError e boot_state)" for e
    by (rule ProcessCommand_default) (simp_all add: v7 cmd_ids)
  have b: "ProcessCommand e 0 \<lparr>sync1 = 0xAA, sync2 = 0x56, command_id = 0x0A,
               sequence_number = 0, parameter_length = 0, parameters = replicate 64 0,
               checksum = 0xFEF5\<rparr> boot_state = Returned (LogError e boot_state)" for e
    by (rule ProcessCommand_default) (simp_all add: vA cmd_ids)
  show ?thesis unfolding a b by simp
qed

subsection \<open>Beacon gating\<close>

lemmas state_ids = STATE_BOOT_def STATE_IDLE_def STATE_NOMINAL_def STATE_SAFE_def
  STATE_LOW_POWER_def STATE_EMERGENCY_def STATE_IMAGE_CAPTURE_def STATE_DATA_TX_def

lemma CommTask_no_command:
  "commandQueue st = [] \<Longrightarrow>
   CommTask e t_tx t_cmd now now' st =
     Returned (emit [Delay 100] (CommTask_beacon now now'
       (case telemetryQueue st of [] \<Rightarrow> st
        | tx_packet # q \<Rightarrow>
            emit [UartTransmit USART1 (snd (COMM_SendTelemetry t_tx tx_packet))]
              (st\<lparr>telemetryQueue := q\<rparr>))))"
  by (simp add: CommTask_def Let_def emit_def split: list.splits)

text \<open>C4 (as the code has it). In the beacon check of \<open>CommTask\<close>: with \<open>system_state = STATE_SAFE\<close>
  nothing is emitted, whatever the elapsed time; with \<open>STATE_IDLE\<close> or \<open>STATE_NOMINAL\<close> and
  more than 30000 ms elapsed since \<open>last_beacon\<close> (the difference taken in \<open>uint32_t\<close>),
  exactly one 6-byte beacon goes out on USART2 and \<open>last_beacon\<close> is set to the new tick;
  with 30000 ms or less elapsed, nothing is emitted. A whole \<open>CommTask\<close> pass in
  \<open>STATE_SAFE\<close> with both queues empty only sleeps.\<close>

theorem CommTask_beacon_gating:
  "(system_state st = STATE_SAFE \<longrightarrow> CommTask_beacon now now' st = st)
   \<and> ((system_state st = STATE_IDLE \<or> system_state st = STATE_NOMINAL) \<and>
        30000 < now - last_beacon st \<longrightarrow>
        events (CommTask_beacon now now' st) =
          events st @ [UartTransmit USART2
             [0xAA, 0x59, system_state st, ucast (boot_count st AND 0xFF),
              ucast (drop_bit 8 (battery_voltage (current_telemetry st))),
              ucast (battery_voltage (current_telemetry st) AND 0xFF)]]
        \<and> last_beacon (CommTask_beacon now now' st) = now')
   \<and> (now - last_beacon st \<le> 30000 \<longrightarrow> CommTask_beacon now now' st = st)
   \<and> (system_state st = STATE_SAFE \<and> commandQueue st = [] \<and> telemetryQueue st = [] \<longrightarrow>
        CommTask e t_tx t_cmd now now' st = Returned (emit [Delay 100] st))"
  by (auto simp: CommTask_beacon_def COMM_SendBeacon_def emit_def state_ids CommTask_no_command)

text \<open>C4 as stated fails at the boundary: in \<open>STATE_IDLE\<close> with exactly 30000 ms elapsed the
  check emits nothing.\<close>

theorem CommTask_beacon_gating_counterexample:
  "system_state (boot_state\<lparr>system_state := STATE_IDLE\<rparr>) = STATE_IDLE
   \<and> 30000 - last_beacon (boot_state\<lparr>system_state := STATE_IDLE\<rparr>) = 30000
   \<and> events (CommTask_beacon 30000 30000 (boot_state\<lparr>system_state := STATE_IDLE\<rparr>)) = []"
  by (simp add: CommTask_beacon_def boot_state_def)

theorem CommTask_beacon_gating_witness:
  "CommTask_beacon 99999 99999 (boot_state\<lparr>system_state := STATE_SAFE\<rparr>)
     = boot_state\<lparr>system_state := STATE_SAFE\<rparr>
   \<and> events (CommTask_beacon 30001 30002 (boot_state\<lparr>system_state := STATE_IDLE\<rparr>))
     = [UartTransmit USART2 [0xAA, 0x59, 0x01, 0, 0, 0]]
   \<and> last_beacon (CommTask_beacon 30001 30002 (boot_state\<lparr>system_state := STATE_IDLE\<rparr>)) = 30002
   \<and> CommTask_beacon 30000 30000 (boot_state\<lparr>system_state := STATE_NOMINAL\<rparr>)
     = boot_state\<lparr>system_state := STATE_NOMINAL\<rparr>
   \<and> CommTask 0 0 0 99999 99999 (boot_state\<lparr>system_state := STATE_SAFE\<rparr>)
     = Returned (emit [Delay 100] (boot_state\<lparr>system_state := STATE_SAFE\<rparr>))"
proof -
  have a: "system_state (boot_state\<lparr>system_state := STATE_SAFE\<rparr>) = STATE_SAFE
      \<and> commandQueue (boot_state\<lparr>system_state := STATE_SAFE\<rparr>) = []
      \<and> telemetryQueue (boot_state\<lparr>system_state := STATE_SAFE\<rparr>) = []"
    by (simp add: boot_state_def)
  have b: "(system_state (boot_state\<lparr>system_state := STATE_IDLE\<rparr>) = STATE_IDLE
      \<or> system_state (boot_state\<lparr>system_state := STATE_IDLE\<rparr>) = STATE_NOMINAL)
      \<and> 30000 < (30001 :: u32) - last_beacon (boot_state\<lparr>system_state := STATE_IDLE\<rparr>)"
    by (simp add: boot_state_def)
  have c: "(30000 :: u32) - last_beacon (boot_state\<lparr>system_state := STATE_NOMINAL\<rparr>) \<le> 30000"
    by (simp add: boot_state_def)
  have v: "system_state (boot_state\<lparr>system_state := STATE_IDLE\<rparr>) = 0x01
      \<and> boot_count (boot_state\<lparr>system_state := STATE_IDLE\<rparr>) = 0
      \<and> battery_voltage (current_telemetry (boot_state\<lparr>system_state := STATE_IDLE\<rparr>)) = 0
      \<and> events (boot_state\<lparr>system_state := STATE_IDLE\<rparr>) = []"
    by (simp add: boot_state_def zero_telemetry_def STATE_IDLE_def)
  from a CommTask_beacon_gating [of "boot_state\<lparr>system_state := STATE_SAFE\<rparr>" 99999 99999 0 0 0]
  have 1: "CommTask_beacon 99999 99999 (boot_state\<lparr>system_state := STATE_SAFE\<rparr>)
     = boot_state\<lparr>system_state := STATE_SAFE\<rparr>
     \<and> CommTask 0 0 0 99999 99999 (boot_state\<lparr>system_state := STATE_SAFE\<rparr>)
     = Returned (emit [Delay 100] (boot_state\<lparr>system_state := STATE_SAFE\<rparr>))"
    by blast
  from b CommTask_beacon_gating [of "boot_state\<lparr>system_state := STATE_IDLE\<rparr>" 30001 30002]
  have 2: "events (CommTask_beacon 30001 30002 (boot_state\<lparr>system_state := STATE_IDLE\<rparr>))
     = [UartTransmit USART2 [0xAA, 0x59, 0x01, 0, 0, 0]]
     \<and> last_beacon (CommTask_beacon 30001 30002 (boot_state\<lparr>system_state := STATE_IDLE\<rparr>)) = 30002"
    using v by simp
  from c CommTask_beacon_gating [of "boot_state\<lparr>system_state := STATE_NOMINAL\<rparr>" 30000 30000]
  have 3: "CommTask_beacon 30000 30000 (boot_state\<lparr>system_state := STATE_NOMINAL\<rparr>)
     = boot_state\<lparr>system_state := STATE_NOMINAL\<rparr>"
    by blast
  from 1 2 3 show ?thesis by blast
qed

subsection \<open>Battery threshold\<close>

lemma shutdown_calls_append: "shutdown_calls (xs @ ys) = shutdown_calls xs + shutdown_calls ys"
  by (simp add: shutdown_calls_def)

lemma WatchdogTask_temperature_events: "events (WatchdogTask_temperature st) = events st"
  by (simp add: WatchdogTask_temperature_def LogError_def)

lemma WatchdogTask_events:
  "events (WatchdogTask st) = events (WatchdogTask_battery st) @ [IwdgRefresh, Delay 5000]"
  by (simp add: WatchdogTask_def Let_def emit_def WatchdogTask_temperature_events)

lemma WatchdogTask_system_state:
  "system_state (WatchdogTask st) =
     (if f32_gt_70 (temperature_bme (current_telemetry st)) \<or>
         f32_lt_minus_20 (temperature_bme (current_telemetry st))
      then STATE_SAFE else system_state (WatchdogTask_battery st))"
  by (simp add: WatchdogTask_def Let_def emit_def WatchdogTask_temperature_def LogError_def
        WatchdogTask_battery_def ShutdownPayload_def)

text \<open>C3 (as the code has it). In a watchdog evaluation with the battery voltage below
  \<open>BATTERY_CRITICAL\<close> (3400 mV, so at 3399 mV) the battery rule sets \<open>system_state\<close> to
  \<open>STATE_LOW_POWER\<close> and calls \<open>ShutdownPayload\<close> once in that evaluation; the evaluation ends
  in \<open>STATE_LOW_POWER\<close> unless the temperature rule, which runs next, replaces it by
  \<open>STATE_SAFE\<close>; the voltage is not changed, so the next evaluation does the same again.
  With the voltage at or above the threshold (so at 3401 mV) the battery rule changes
  nothing and the evaluation calls \<open>ShutdownPayload\<close> not at all.\<close>

theorem WatchdogTask_battery_rule:
  "(battery_voltage (current_telemetry st) < BATTERY_CRITICAL \<longrightarrow>
      WatchdogTask_battery st = ShutdownPayload (st\<lparr>system_state := STATE_LOW_POWER\<rparr>)
      \<and> system_state (WatchdogTask_battery st) = STATE_LOW_POWER
      \<and> shutdown_calls (events (WatchdogTask st)) = shutdown_calls (events st) + 1
      \<and> system_state (WatchdogTask st) =
          (if f32_gt_70 (temperature_bme (current_telemetry st)) \<or>
              f32_lt_minus_20 (temperature_bme (current_telemetry st))
           then STATE_SAFE else STATE_LOW_POWER)
      \<and> battery_voltage (current_telemetry (WatchdogTask st)) < BATTERY_CRITICAL)
   \<and> (\<not> battery_voltage (current_telemetry st) < BATTERY_CRITICAL \<longrightarrow>
      WatchdogTask_battery st = st
      \<and> shutdown_calls (events (WatchdogTask st)) = shutdown_calls (events st))"
proof -
  have b: "battery_voltage (current_telemetry (WatchdogTask st)) = battery_voltage (current_telemetry st)"
    by (simp add: WatchdogTask_def Let_def emit_def WatchdogTask_temperature_def LogError_def
        WatchdogTask_battery_def ShutdownPayload_def)
  show ?thesis
    by (simp add: WatchdogTask_events WatchdogTask_system_state shutdown_calls_append b)
       (simp add: WatchdogTask_battery_def ShutdownPayload_def emit_def shutdown_calls_def)
qed

text \<open>C3 as stated fails: the voltage goes below the threshold once and stays at 3399 mV;
  two evaluations call \<open>ShutdownPayload\<close> twice.\<close>

theorem WatchdogTask_battery_rule_counterexample:
  "battery_voltage (current_telemetry
     (WatchdogTask (boot_state\<lparr>current_telemetry := zero_telemetry\<lparr>battery_voltage := 3399\<rparr>\<rparr>))) = 3399
   \<and> shutdown_calls (events (WatchdogTask (WatchdogTask
     (boot_state\<lparr>current_telemetry := zero_telemetry\<lparr>battery_voltage := 3399\<rparr>\<rparr>)))) = 2"
  by (simp add: WatchdogTask_events shutdown_calls_append)
     (simp add: WatchdogTask_def WatchdogTask_battery_def WatchdogTask_temperature_def
        ShutdownPayload_def emit_def shutdown_calls_def boot_state_def zero_telemetry_def
        BATTERY_CRITICAL_def f32_gt_70_def f32_lt_minus_20_def f32_is_nan_def Let_def)

theorem WatchdogTask_battery_rule_witness:
  "system_state (WatchdogTask
     (boot_state\<lparr>current_telemetry := zero_telemetry\<lparr>battery_voltage := 3399\<rparr>\<rparr>)) = STATE_LOW_POWER
   \<and> shutdown_calls (events (WatchdogTask
     (boot_state\<lparr>current_telemetry := zero_telemetry\<lparr>battery_voltage := 3399\<rparr>\<rparr>))) = 1
   \<and> WatchdogTask_battery (boot_state\<lparr>current_telemetry := zero_telemetry\<lparr>battery_voltage := 3401\<rparr>\<rparr>)
     = boot_state\<lparr>current_telemetry := zero_telemetry\<lparr>battery_voltage := 3401\<rparr>\<rparr>
   \<and> shutdown_calls (events (WatchdogTask
     (boot_state\<lparr>current_telemetry := zero_telemetry\<lparr>battery_voltage := 3401\<rparr>\<rparr>))) = 0"
proof -
  let ?lo = "boot_state\<lparr>current_telemetry := zero_telemetry\<lparr>battery_voltage := 3399\<rparr>\<rparr>"
  let ?hi = "boot_state\<lparr>current_telemetry := zero_telemetry\<lparr>battery_voltage := 3401\<rparr>\<rparr>"
  have lo: "battery_voltage (current_telemetry ?lo) < BATTERY_CRITICAL" 
    by (simp add: BATTERY_CRITICAL_def)
  have hi: "\<not> battery_voltage (current_telemetry ?hi) < BATTERY_CRITICAL" 
    by (simp add: BATTERY_CRITICAL_def)
  have t: "\<not> f32_gt_70 (temperature_bme (current_telemetry ?lo))"
     "\<not> f32_lt_minus_20 (temperature_bme (current_telemetry ?lo))"
    by (simp_all add: zero_telemetry_def f32_gt_70_def f32_lt_minus_20_def)
  have e: "shutdown_calls (events ?lo) = 0" "shutdown_calls (events ?hi) = 0"
    by (simp_all add: boot_state_def shutdown_calls_def)
  from lo t e WatchdogTask_battery_rule [of ?lo]
  have 1: "system_state (WatchdogTask ?lo) = STATE_LOW_POWER
      \<and> shutdown_calls (events (WatchdogTask ?lo)) = 1" by simp
  from hi e WatchdogTask_battery_rule [of ?hi]
  have 2: "WatchdogTask_battery ?hi = ?hi \<and> shutdown_calls (events (WatchdogTask ?hi)) = 0"
    by simp
  from 1 2 show ?thesis by blast
qed

subsection \<open>Parameter buffer\<close>

text \<open>C5. For a checksum-valid command whose \<open>parameter_length\<close> exceeds 64, whatever its
  \<open>command_id\<close>: the dispatcher returns or resets, and every subscript it applies to
  \<open>parameters\<close> is at most 63 and inside the 64-element array. The only subscript is 0, read
  by \<open>CMD_SET_MODE\<close>, whose value becomes \<open>system_state\<close>.\<close>

theorem ProcessCommand_parameter_reads:
  assumes "wf_cmd cmd" and "sync1 cmd = 0xAA" and "sync2 cmd = 0x56" and "checksum_valid cmd"
    and "64 < unat (parameter_length cmd)"
  shows "\<exists>st' new.
           (ProcessCommand e tick cmd st = Returned st' \<or>
            ProcessCommand e tick cmd st = McuReset st')
           \<and> events st' = events st @ new
           \<and> (\<forall>i. ParamRead i \<in> set new \<longrightarrow> i \<le> 63 \<and> i < length (parameters cmd))
           \<and> (ParamRead 0 \<in> set new \<longleftrightarrow> command_id cmd = CMD_SET_MODE)
           \<and> (command_id cmd = CMD_SET_MODE \<longrightarrow> system_state st' = parameters cmd ! 0)"
proof -
  from assms(5) have pl: "1 \<le> parameter_length cmd"
    by (simp add: word_le_nat_alt)
  from assms(1) have len: "0 < length (parameters cmd)" by (simp add: wf_cmd_def)
  have ck: "CalculateChecksum (bytes_of_cmd cmd) (of_nat (sizeof_CommandPacket_t - 2)) = checksum cmd"
    using assms(4) by (simp add: checksum_valid_def)
  consider (c_ping) "command_id cmd = CMD_PING" | (c_get) "command_id cmd = CMD_GET_TELEMETRY"
    | (c_cap) "command_id cmd = CMD_CAPTURE_IMAGE" | (c_mode) "command_id cmd = CMD_SET_MODE"
    | (c_reset) "command_id cmd = CMD_RESET" | (c_file) "command_id cmd = CMD_TRANSMIT_FILE"
    | (c_other) "command_id cmd \<notin> {CMD_PING, CMD_GET_TELEMETRY, CMD_CAPTURE_IMAGE, CMD_SET_MODE,
           CMD_RESET, CMD_TRANSMIT_FILE}"
    by blast
  then show ?thesis
  proof cases
    case c_ping
    then show ?thesis using assms(2,3) ck
      by (simp add: ProcessCommand_def emit_def cmd_ids)
  next
    case c_get
    then show ?thesis using assms(2,3) ck
      by (simp add: ProcessCommand_def emit_def cmd_ids COMM_SendTelemetry_def Let_def)
  next
    case c_cap
    then show ?thesis using assms(2,3) ck
      by (simp add: ProcessCommand_def emit_def cmd_ids)
  next
    case c_mode
    then show ?thesis using assms(2,3) ck pl len
      by (simp add: ProcessCommand_def emit_def cmd_ids)
  next
    case c_reset
    then show ?thesis using assms(2,3) ck
      by (simp add: ProcessCommand_def emit_def cmd_ids)
  next
    case c_file
    then show ?thesis using assms(2,3) ck
      by (simp add: ProcessCommand_def emit_def cmd_ids)
  next
    case c_other
    from ProcessCommand_default [OF assms(2,3,4) c_other, of e tick st] c_other
    show ?thesis by (simp add: LogError_def)
  qed
qed

theorem ProcessCommand_parameter_reads_witness:
  "\<exists>st' new.
      (ProcessCommand 0 0 \<lparr>sync1 = 0xAA, sync2 = 0x56, command_id = 0x04, sequence_number = 0,
          parameter_length = 65, parameters = replicate 64 0, checksum = 0xFEBA\<rparr> boot_state
         = Returned st' \<or>
       ProcessCommand 0 0 \<lparr>sync1 = 0xAA, sync2 = 0x56, command_id = 0x04, sequence_number = 0,
          parameter_length = 65, parameters = replicate 64 0, checksum = 0xFEBA\<rparr> boot_state
         = McuReset st')
      \<and> events st' = new \<and> ParamRead 0 \<in> set new \<and> system_state st' = 0"
proof -
  let ?c = "\<lparr>sync1 = 0xAA, sync2 = 0x56, command_id = 0x04, sequence_number = 0,
          parameter_length = 65, parameters = replicate 64 0, checksum = 0xFEBA\<rparr>"
  have v: "checksum_valid ?c"
    by (simp add: checksum_valid_def CalculateChecksum_def bytes_of_cmd_def le16_def
        sizeof_CommandPacket_t_def sum_replicate_zero)
  have w: "wf_cmd ?c" by (simp add: wf_cmd_def)
  have p: "64 < unat (parameter_length ?c)" by simp
  have s: "sync1 ?c = 0xAA" "sync2 ?c = 0x56" by simp_all
  from ProcessCommand_parameter_reads [OF w s v p, of 0 0 boot_state]
  show ?thesis by (auto simp: boot_state_def CMD_SET_MODE_def)
qed

subsection \<open>The receive parser, byte by byte\<close>

lemma unat_succ_small: "unat (w :: u16) < 256 \<Longrightarrow> unat (w + 1) = Suc (unat w)"
  by (simp add: unat_word_ariths)

lemma u16_eq_unat: "(w :: u16) = v \<longleftrightarrow> unat w = unat v"
  by (rule word_unat_eq_iff)

lemma rx_byte_idle0:
  assumes "rx_index st = 0" and "expected_length st = 0"
    and "length (rx_buffer st) = UART_RX_BUFFER_SIZE"
  shows "rx_byte b st =
     Some (st\<lparr>rx_buffer := (rx_buffer st)[0 := b],
              rx_index := (if b = 0xAA then 1 else 0)\<rparr>)"
  using assms
  by (simp add: rx_byte_def rx_store_def rx_select_def rx_complete_def UART_RX_BUFFER_SIZE_def)

lemma rx_byte_idle1:
  assumes "rx_index st = 1" and "expected_length st = 0"
    and "length (rx_buffer st) = UART_RX_BUFFER_SIZE"
  shows "rx_byte b st =
     Some (if b = 0x55
           then st\<lparr>rx_buffer := (rx_buffer st)[1 := b], rx_index := 2,
                   rx_packet_type := 0x01, expected_length := 70\<rparr>
           else if b = 0x56
           then st\<lparr>rx_buffer := (rx_buffer st)[1 := b], rx_index := 2,
                   rx_packet_type := 0x02, expected_length := 73\<rparr>
           else st\<lparr>rx_buffer := (rx_buffer st)[1 := b], rx_index := 0\<rparr>)"
  using assms
  by (simp add: rx_byte_def rx_store_def rx_select_def rx_complete_def UART_RX_BUFFER_SIZE_def
        sizeof_TelemetryPacket_t_def sizeof_CommandPacket_t_def)

lemma rx_byte_accumulate:
  assumes "2 \<le> unat (rx_index st)" and "Suc (unat (rx_index st)) < unat (expected_length st)"
    and "unat (expected_length st) \<le> 73"
  shows "rx_byte b st =
     Some (st\<lparr>rx_buffer := (rx_buffer st)[unat (rx_index st) := b],
              rx_index := rx_index st + 1\<rparr>)"
proof -
  have k: "unat (rx_index st + 1) = Suc (unat (rx_index st))"
    using assms by (intro unat_succ_small) simp
  have n1: "rx_index st + 1 \<noteq> 1" and n2: "rx_index st + 1 \<noteq> 2"
    using k assms(1) by (auto simp: u16_eq_unat)
  have nc: "\<not> expected_length st \<le> rx_index st + 1"
    using k assms(2) by (simp add: word_le_nat_alt)
  show ?thesis using assms n1 n2 nc
    by (simp add: rx_byte_def rx_store_def rx_select_def rx_complete_def UART_RX_BUFFER_SIZE_def)
qed

lemma rx_byte_complete:
  assumes "2 \<le> unat (rx_index st)" and "Suc (unat (rx_index st)) = unat (expected_length st)"
    and "unat (expected_length st) \<le> 73"
  shows "rx_byte b st =
     Some ((if rx_packet_type st = 0x02
            then osMessageQueuePut_command ((rx_buffer st)[unat (rx_index st) := b])
                   (st\<lparr>rx_buffer := (rx_buffer st)[unat (rx_index st) := b]\<rparr>)
            else st\<lparr>rx_buffer := (rx_buffer st)[unat (rx_index st) := b]\<rparr>)
           \<lparr>rx_index := 0, expected_length := 0\<rparr>)"
proof -
  have k: "unat (rx_index st + 1) = Suc (unat (rx_index st))"
    using assms by (intro unat_succ_small) simp
  have n1: "rx_index st + 1 \<noteq> 1" and n2: "rx_index st + 1 \<noteq> 2"
    using k assms(1) by (auto simp: u16_eq_unat)
  have c: "expected_length st \<le> rx_index st + 1"
    using k assms(2) by (simp add: word_le_nat_alt)
  have p: "0 < expected_length st"
    using assms(1,2) by (simp add: word_less_nat_alt)
  show ?thesis using assms n1 n2 c p
    by (simp add: rx_byte_def rx_store_def rx_select_def rx_complete_def UART_RX_BUFFER_SIZE_def
          osMessageQueuePut_command_def)
qed

lemma rx_byte_inv:
  assumes "rx_inv st"
  shows "\<exists>st'. rx_byte b st = Some st' \<and> rx_inv st'
           \<and> (rx_index st' = 0 \<or> rx_index st' = rx_index st + 1)"
proof -
  from assms have len: "length (rx_buffer st) = UART_RX_BUFFER_SIZE" by (simp add: rx_inv_def)
  from assms consider
      (i0) "expected_length st = 0" "rx_index st = 0"
    | (i1) "expected_length st = 0" "rx_index st = 1"
    | (acc) "2 \<le> unat (rx_index st)" "Suc (unat (rx_index st)) < unat (expected_length st)"
            "expected_length st = 70 \<or> expected_length st = 73"
    | (fin) "2 \<le> unat (rx_index st)" "Suc (unat (rx_index st)) = unat (expected_length st)"
            "expected_length st = 70 \<or> expected_length st = 73"
    unfolding rx_inv_def u16_eq_unat [of "rx_index st"] by (simp, linarith)
  then show ?thesis
  proof cases
    case i0
    then show ?thesis using len by (simp add: rx_byte_idle0 rx_inv_def)
  next
    case i1
    then show ?thesis using len by (simp add: rx_byte_idle1 rx_inv_def)
  next
    case acc
    have k: "unat (rx_index st + 1) = Suc (unat (rx_index st))"
      using acc by (intro unat_succ_small) auto
    have "unat (expected_length st) \<le> 73" using acc(3) by auto
    from rx_byte_accumulate [OF acc(1,2) this] show ?thesis
      using acc len k by (simp add: rx_inv_def)
  next
    case fin
    have "unat (expected_length st) \<le> 73" using fin(3) by auto
    from rx_byte_complete [OF fin(1,2) this] show ?thesis
      using len by (simp add: rx_inv_def osMessageQueuePut_command_def)
  qed
qed

lemma rx_inv_boot: "rx_inv boot_state"
  by (simp add: rx_inv_def boot_state_def)

lemma COMM_ProcessReceivedData_inv:
  "rx_inv st \<Longrightarrow> \<exists>st'. COMM_ProcessReceivedData data st = Some st' \<and> rx_inv st'"
proof (induction data arbitrary: st)
  case Nil
  then show ?case by simp
next
  case (Cons b data)
  from rx_byte_inv [OF Cons.prems, of b] obtain s1 where
    s1: "rx_byte b st = Some s1" "rx_inv s1" by blast
  from Cons.IH [OF s1(2)] s1(1) show ?case by simp
qed

lemma HAL_UART_RxCpltCallback_inv:
  assumes "rx_inv st"
  shows "\<exists>st'. HAL_UART_RxCpltCallback u b st = Some st' \<and> rx_inv st'"
proof (cases "u = USART1")
  case True
  have "rx_inv (st\<lparr>rx_buffer := (rx_buffer st)[0 := b]\<rparr>)"
    using assms by (simp add: rx_inv_def)
  from COMM_ProcessReceivedData_inv [OF this, of "[(rx_buffer st)[0 := b] ! 0]"] True
  show ?thesis
    by (simp add: HAL_UART_RxCpltCallback_def Let_def del: COMM_ProcessReceivedData.simps)
next
  case False
  with assms show ?thesis by (simp add: HAL_UART_RxCpltCallback_def)
qed

lemma rx_inv_cong:
  "rx_buffer s' = rx_buffer s \<Longrightarrow> rx_index s' = rx_index s \<Longrightarrow>
   expected_length s' = expected_length s \<Longrightarrow> rx_inv s \<Longrightarrow> rx_inv s'"
  by (simp add: rx_inv_def)

lemma ProcessCommand_rx:
  assumes "ProcessCommand e t c st = Returned st'"
  shows "rx_buffer st' = rx_buffer st \<and> rx_index st' = rx_index st
         \<and> expected_length st' = expected_length st"
  using assms
  by (auto simp: ProcessCommand_def emit_def LogError_def COMM_SendTelemetry_def Let_def
        split: if_splits)

lemma CommTask_beacon_rx:
  "rx_buffer (CommTask_beacon a b st) = rx_buffer st
   \<and> rx_index (CommTask_beacon a b st) = rx_index st
   \<and> expected_length (CommTask_beacon a b st) = expected_length st"
  by (simp add: CommTask_beacon_def COMM_SendBeacon_def emit_def)

lemma CommTask_rx:
  assumes "CommTask e t1 t2 t3 t4 st = Returned st'"
  shows "rx_buffer st' = rx_buffer st \<and> rx_index st' = rx_index st
         \<and> expected_length st' = expected_length st"
proof -
  define s1 where "s1 = (case telemetryQueue st of
                  [] \<Rightarrow> st
                | tx_packet # q \<Rightarrow>
                    emit [UartTransmit USART1 (snd (COMM_SendTelemetry t1 tx_packet))]
                      (st\<lparr>telemetryQueue := q\<rparr>))"
  have s1: "rx_buffer s1 = rx_buffer st \<and> rx_index s1 = rx_index st
         \<and> expected_length s1 = expected_length st"
    by (simp add: s1_def emit_def split: list.splits)
  show ?thesis
  proof (cases "commandQueue s1")
    case Nil
    with assms have "st' = emit [Delay 100] (CommTask_beacon t3 t4 s1)"
      by (auto simp: CommTask_def Let_def s1_def)
    then show ?thesis by (simp add: emit_def CommTask_beacon_rx s1)
  next
    case (Cons c q)
    from assms Cons obtain s2 where
      a: "ProcessCommand e t2 (cmd_of_bytes c) (s1\<lparr>commandQueue := q\<rparr>) = Returned s2"
      and b: "st' = emit [Delay 100] (CommTask_beacon t3 t4 s2)"
      by (auto simp: CommTask_def Let_def s1_def split: outcome.splits)
    from ProcessCommand_rx [OF a] b show ?thesis
      by (simp add: emit_def CommTask_beacon_rx s1)
  qed
qed

lemma ProcessCommand_no_overrun: "ProcessCommand e t c st \<noteq> BufferOverrun"
  by (simp add: ProcessCommand_def Let_def split: prod.splits)

lemma CommTask_no_overrun: "CommTask e t1 t2 t3 t4 st \<noteq> BufferOverrun"
  by (simp add: CommTask_def Let_def ProcessCommand_no_overrun split: list.splits outcome.splits)

lemma run_op_inv:
  assumes "rx_inv st"
  shows "run_op op st \<noteq> BufferOverrun \<and> (run_op op st = Returned st' \<longrightarrow> rx_inv st')"
proof (cases op)
  case (Op_LogError e)
  with assms show ?thesis by (auto simp: LogError_def rx_inv_def)
next
  case (Op_ProcessCommand e t c)
  with assms show ?thesis
    by (auto simp: ProcessCommand_no_overrun dest!: ProcessCommand_rx intro: rx_inv_cong)
next
  case Op_COMM_SendBeacon
  with assms show ?thesis by (auto simp: COMM_SendBeacon_def emit_def rx_inv_def)
next
  case Op_ShutdownPayload
  with assms show ?thesis by (auto simp: ShutdownPayload_def emit_def rx_inv_def)
next
  case (Op_COMM_ProcessReceivedData data)
  with COMM_ProcessReceivedData_inv [OF assms, of data] show ?thesis
    by (auto simp: of_rx_def)
next
  case (Op_HAL_UART_RxCpltCallback u b)
  with HAL_UART_RxCpltCallback_inv [OF assms, of u b] show ?thesis
    by (auto simp: of_rx_def)
next
  case (Op_HAL_GPIO_EXTI_Callback p)
  with assms show ?thesis by (auto simp: HAL_GPIO_EXTI_Callback_def rx_inv_def)
next
  case Op_Reset_Radiation_Counter
  with assms show ?thesis by (auto simp: Reset_Radiation_Counter_def rx_inv_def)
next
  case Op_SYSTEM_Init
  with assms show ?thesis by (auto simp: SYSTEM_Init_def rx_inv_def)
next
  case (Op_SensorTask inp)
  with assms show ?thesis
    by (auto simp: SensorTask_def osMessageQueuePut_telemetry_def emit_def Let_def rx_inv_def)
next
  case Op_RadiationTask
  with assms show ?thesis by (auto simp: RadiationTask_def emit_def Let_def rx_inv_def)
next
  case (Op_CommTask e t1 t2 t3 t4)
  with assms show ?thesis
    by (auto simp: CommTask_no_overrun dest!: CommTask_rx intro: rx_inv_cong)
next
  case Op_WatchdogTask
  with assms show ?thesis
    by (auto simp: WatchdogTask_def WatchdogTask_temperature_def WatchdogTask_battery_def
          ShutdownPayload_def LogError_def emit_def Let_def rx_inv_def)
qed

lemma run_ops_inv:
  "rx_inv st \<Longrightarrow> run_ops ops st \<noteq> BufferOverrun \<and> (run_ops ops st = Returned st' \<longrightarrow> rx_inv st')"
proof (induction ops arbitrary: st)
  case Nil
  then show ?case by auto
next
  case (Cons op ops)
  show ?case
  proof (cases "run_op op st")
    case (Returned s1)
    with run_op_inv [OF Cons.prems, of op s1] have "rx_inv s1" by simp
    from Cons.IH [OF this] Returned show ?thesis by simp
  next
    case (McuReset s1)
    then show ?thesis by simp
  next
    case BufferOverrun
    with run_op_inv [OF Cons.prems, of op] show ?thesis by simp
  qed
qed

lemma rx_fill_one: "k < length buf \<Longrightarrow> rx_fill k [b] buf = buf[k := b]"
  by (simp add: rx_fill_def upd_conv_take_nth_drop)

lemma rx_fill_cons:
  "k < length buf \<Longrightarrow> rx_fill (Suc k) data (buf[k := b]) = rx_fill k (b # data) buf"
  by (simp add: rx_fill_def take_Suc_conv_app_nth)

lemma length_rx_fill: "k + length data \<le> length buf \<Longrightarrow> length (rx_fill k data buf) = length buf"
  by (simp add: rx_fill_def)

lemma accumulate_run:
  assumes "2 \<le> unat (rx_index st)"
    and "unat (rx_index st) + length data = unat (expected_length st)"
    and "data \<noteq> []" and "unat (expected_length st) \<le> 73"
    and "length (rx_buffer st) = UART_RX_BUFFER_SIZE"
  shows "COMM_ProcessReceivedData data st =
     Some ((if rx_packet_type st = 0x02
            then osMessageQueuePut_command (rx_fill (unat (rx_index st)) data (rx_buffer st))
                   (st\<lparr>rx_buffer := rx_fill (unat (rx_index st)) data (rx_buffer st)\<rparr>)
            else st\<lparr>rx_buffer := rx_fill (unat (rx_index st)) data (rx_buffer st)\<rparr>)
           \<lparr>rx_index := 0, expected_length := 0\<rparr>)"
  using assms
proof (induction data arbitrary: st)
  case Nil
  then show ?case by simp
next
  case (Cons b data)
  have klt: "unat (rx_index st) < length (rx_buffer st)"
    using Cons.prems by (simp add: UART_RX_BUFFER_SIZE_def)
  show ?case
  proof (cases "data = []")
    case True
    with Cons.prems have "Suc (unat (rx_index st)) = unat (expected_length st)" by simp
    from rx_byte_complete [OF Cons.prems(1) this Cons.prems(4), of b] True klt
    show ?thesis by (simp add: rx_fill_one)
  next
    case False
    with Cons.prems have lt: "Suc (unat (rx_index st)) < unat (expected_length st)"
      by (cases data) simp_all
    define s1 where "s1 = st\<lparr>rx_buffer := (rx_buffer st)[unat (rx_index st) := b],
              rx_index := rx_index st + 1\<rparr>"
    have step: "rx_byte b st = Some s1"
      unfolding s1_def by (rule rx_byte_accumulate [OF Cons.prems(1) lt Cons.prems(4)])
    have k: "unat (rx_index s1) = Suc (unat (rx_index st))"
      unfolding s1_def using Cons.prems by (simp add: unat_succ_small)
    have "COMM_ProcessReceivedData data s1 =
       Some ((if rx_packet_type s1 = 0x02
            then osMessageQueuePut_command (rx_fill (unat (rx_index s1)) data (rx_buffer s1))
                   (s1\<lparr>rx_buffer := rx_fill (unat (rx_index s1)) data (rx_buffer s1)\<rparr>)
            else s1\<lparr>rx_buffer := rx_fill (unat (rx_index s1)) data (rx_buffer s1)\<rparr>)
           \<lparr>rx_index := 0, expected_length := 0\<rparr>)"
    proof (rule Cons.IH)
      show "2 \<le> unat (rx_index s1)" using k Cons.prems(1) by simp
      show "unat (rx_index s1) + length data = unat (expected_length s1)"
        using k Cons.prems(2) by (simp add: s1_def)
      show "data \<noteq> []" by (rule False)
      show "unat (expected_length s1) \<le> 73" using Cons.prems(4) by (simp add: s1_def)
      show "length (rx_buffer s1) = UART_RX_BUFFER_SIZE" using Cons.prems(5) by (simp add: s1_def)
    qed
    moreover have "rx_fill (unat (rx_index s1)) data (rx_buffer s1)
        = rx_fill (unat (rx_index st)) (b # data) (rx_buffer st)"
      unfolding k using klt by (simp add: s1_def rx_fill_cons)
    ultimately show ?thesis using step
      by (simp add: s1_def osMessageQueuePut_command_def)
  qed
qed

lemma command_frame_queued:
  assumes "rx_index st = 0" and "expected_length st = 0"
    and "length (rx_buffer st) = UART_RX_BUFFER_SIZE"
    and "length frame = sizeof_CommandPacket_t" and "frame ! 0 = 0xAA" and "frame ! 1 = 0x56"
  shows "COMM_ProcessReceivedData frame st =
     Some (osMessageQueuePut_command frame
            (st\<lparr>rx_buffer := frame @ drop sizeof_CommandPacket_t (rx_buffer st),
                rx_packet_type := 0x02\<rparr>))"
proof -
  from assms(4,5,6) obtain rest where
    f: "frame = 0xAA # 0x56 # rest" and r: "length rest = 71"
    by (cases frame; cases "tl frame") (auto simp: sizeof_CommandPacket_t_def)
  define s2 where "s2 = st\<lparr>rx_buffer := (rx_buffer st)[0 := 0xAA, 1 := 0x56], rx_index := 2,
                   rx_packet_type := 0x02, expected_length := 73\<rparr>"
  have h: "COMM_ProcessReceivedData frame st = COMM_ProcessReceivedData rest s2"
    using assms(1,2,3) by (simp add: f rx_byte_idle0 rx_byte_idle1 s2_def)
  have fill: "rx_fill 2 rest (rx_buffer s2) = frame @ drop 73 (rx_buffer st)"
    using assms(3) r
    by (simp add: rx_fill_def s2_def f UART_RX_BUFFER_SIZE_def take_Suc_conv_app_nth
          numeral_2_eq_2)
  have "COMM_ProcessReceivedData rest s2 =
     Some ((if rx_packet_type s2 = 0x02
            then osMessageQueuePut_command (rx_fill (unat (rx_index s2)) rest (rx_buffer s2))
                   (s2\<lparr>rx_buffer := rx_fill (unat (rx_index s2)) rest (rx_buffer s2)\<rparr>)
            else s2\<lparr>rx_buffer := rx_fill (unat (rx_index s2)) rest (rx_buffer s2)\<rparr>)
           \<lparr>rx_index := 0, expected_length := 0\<rparr>)"
    by (rule accumulate_run) (use r assms(3) in \<open>auto simp: s2_def\<close>)
  moreover have "unat (rx_index s2) = 2" by (simp add: s2_def)
  ultimately show ?thesis
    using h fill assms(1,2,4)
    by (simp add: s2_def osMessageQueuePut_command_def sizeof_CommandPacket_t_def)
qed

subsection \<open>Byte images and whole frames\<close>

lemma u16_of_le_le16: "u16_of_le (ucast w) (ucast (drop_bit 8 w)) = (w :: u16)"
  by (rule bit_word_eqI) (auto simp: u16_of_le_def bit_simps)

lemma le16_u16_of_le: "le16 (u16_of_le a b) = [a, b]"
proof -
  have "ucast (u16_of_le a b) = a"
    by (rule bit_word_eqI) (auto simp: u16_of_le_def bit_simps)
  moreover have "ucast (drop_bit 8 (u16_of_le a b)) = b"
    by (rule bit_word_eqI) (auto simp: u16_of_le_def bit_simps dest: bit_imp_le_length)
  ultimately show ?thesis by (simp add: le16_def)
qed

lemma length_le16: "length (le16 w) = 2"
  by (simp add: le16_def)

lemma length_le32: "length (le32 w) = 4"
  by (simp add: le32_def)

lemma length_bytes_of_telemetry: "length (bytes_of_telemetry p) = 70"
  by (simp add: bytes_of_telemetry_def length_le16 length_le32)

lemma length_bytes_of_cmd: "wf_cmd c \<Longrightarrow> length (bytes_of_cmd c) = 73"
  by (simp add: bytes_of_cmd_def length_le16 wf_cmd_def)

lemma cmd_of_bytes_of_cmd:
  assumes "wf_cmd c"
  shows "cmd_of_bytes (bytes_of_cmd c) = c"
proof -
  have l: "length (parameters c) = 64" using assms by (simp add: wf_cmd_def)
  have n71: "(parameters c @ [ucast (checksum c), ucast (drop_bit 8 (checksum c))]) ! 64
      = ucast (checksum c)"
    and n72: "(parameters c @ [ucast (checksum c), ucast (drop_bit 8 (checksum c))]) ! 65
      = ucast (drop_bit 8 (checksum c))"
    using l by (simp_all add: nth_append)
  show ?thesis
    by (rule CommandPacket_t.equality)
       (simp_all add: cmd_of_bytes_def bytes_of_cmd_def le16_def u16_of_le_le16 l n71 n72)
qed

lemma telemetry_frame_dropped:
  assumes "rx_index st = 0" and "expected_length st = 0"
    and "length (rx_buffer st) = UART_RX_BUFFER_SIZE"
    and "length frame = sizeof_TelemetryPacket_t" and "frame ! 0 = 0xAA" and "frame ! 1 = 0x55"
  shows "COMM_ProcessReceivedData frame st =
     Some (st\<lparr>rx_buffer := frame @ drop sizeof_TelemetryPacket_t (rx_buffer st),
              rx_packet_type := 0x01\<rparr>)"
proof -
  from assms(4,5,6) obtain rest where
    f: "frame = 0xAA # 0x55 # rest" and r: "length rest = 68"
    by (cases frame; cases "tl frame") (auto simp: sizeof_TelemetryPacket_t_def)
  define s2 where "s2 = st\<lparr>rx_buffer := (rx_buffer st)[0 := 0xAA, 1 := 0x55], rx_index := 2,
                   rx_packet_type := 0x01, expected_length := 70\<rparr>"
  have h: "COMM_ProcessReceivedData frame st = COMM_ProcessReceivedData rest s2"
    using assms(1,2,3) by (simp add: f rx_byte_idle0 rx_byte_idle1 s2_def)
  have fill: "rx_fill 2 rest (rx_buffer s2) = frame @ drop 70 (rx_buffer st)"
    using assms(3) r
    by (simp add: rx_fill_def s2_def f UART_RX_BUFFER_SIZE_def take_Suc_conv_app_nth
          numeral_2_eq_2)
  have "COMM_ProcessReceivedData rest s2 =
     Some ((if rx_packet_type s2 = 0x02
            then osMessageQueuePut_command (rx_fill (unat (rx_index s2)) rest (rx_buffer s2))
                   (s2\<lparr>rx_buffer := rx_fill (unat (rx_index s2)) rest (rx_buffer s2)\<rparr>)
            else s2\<lparr>rx_buffer := rx_fill (unat (rx_index s2)) rest (rx_buffer s2)\<rparr>)
           \<lparr>rx_index := 0, expected_length := 0\<rparr>)"
    by (rule accumulate_run) (use r assms(3) in \<open>auto simp: s2_def\<close>)
  moreover have "unat (rx_index s2) = 2" by (simp add: s2_def)
  ultimately show ?thesis
    using h fill assms(1,2,4)
    by (simp add: s2_def sizeof_TelemetryPacket_t_def)
qed

lemma take_68_bytes_of_telemetry:
  "take 68 (bytes_of_telemetry (p\<lparr>tm_checksum := c\<rparr>)) = take 68 (bytes_of_telemetry p)"
  by (simp add: bytes_of_telemetry_def le16_def le32_def)

lemma bytes_of_telemetry_checksum:
  "bytes_of_telemetry p ! 68 = ucast (tm_checksum p) \<and>
   bytes_of_telemetry p ! 69 = ucast (drop_bit 8 (tm_checksum p))"
  by (simp add: bytes_of_telemetry_def le16_def le32_def)

lemma bytes_of_telemetry_sync:
  "bytes_of_telemetry p ! 0 = tm_sync1 p \<and> bytes_of_telemetry p ! Suc 0 = tm_sync2 p"
  by (simp add: bytes_of_telemetry_def)

lemma CalculateChecksum_take:
  "unat n \<le> k \<Longrightarrow> CalculateChecksum (take k bs) n = CalculateChecksum bs n"
  by (simp add: CalculateChecksum_def min_def)

lemma COMM_SendTelemetry_checksum:
  assumes "COMM_SendTelemetry tick p = (p', bytes)"
  shows "bytes = bytes_of_telemetry p' \<and> length bytes = sizeof_TelemetryPacket_t
     \<and> CalculateChecksum bytes (of_nat (sizeof_TelemetryPacket_t - 2)) = tm_checksum p'
     \<and> u16_of_le (bytes ! 68) (bytes ! 69) = tm_checksum p'
     \<and> bytes ! 0 = 0xAA \<and> bytes ! 1 = 0x55
     \<and> (\<exists>c. p' = p\<lparr>tm_sync1 := 0xAA, tm_sync2 := 0x55, packet_type := 0x01,
                     timestamp := tick, tm_checksum := c\<rparr>)"
proof -
  define q where "q = p\<lparr>tm_sync1 := 0xAA, tm_sync2 := 0x55, packet_type := 0x01, timestamp := tick\<rparr>"
  define c where "c = CalculateChecksum (bytes_of_telemetry q) 68"
  from assms have p': "p' = q\<lparr>tm_checksum := c\<rparr>" and b: "bytes = bytes_of_telemetry p'"
    by (auto simp: COMM_SendTelemetry_def Let_def q_def c_def sizeof_TelemetryPacket_t_def
          length_bytes_of_telemetry)
  have "CalculateChecksum (bytes_of_telemetry p') 68 = CalculateChecksum (take 68 (bytes_of_telemetry p')) 68"
    by (simp add: CalculateChecksum_take)
  also have "\<dots> = c" unfolding p' take_68_bytes_of_telemetry c_def
    by (simp add: CalculateChecksum_take)
  finally have ck: "CalculateChecksum (bytes_of_telemetry p') 68 = tm_checksum p'"
    by (simp add: p')
  show ?thesis
    using ck b
    by (simp add: sizeof_TelemetryPacket_t_def length_bytes_of_telemetry
          bytes_of_telemetry_checksum u16_of_le_le16 bytes_of_telemetry_sync)
       (auto simp: p' q_def)
qed

subsection \<open>The accumulation index stays in bounds\<close>

text \<open>C9. In every state \<open>st\<close> reached from start-up by any run of operations of the core
  (among them any calls of \<open>COMM_ProcessReceivedData\<close> with any data, and the receive
  callback), \<open>rx_index\<close> is below 73 and the buffer has its 256 bytes; a further call with
  any \<open>data\<close> returns without a store outside \<open>rx_buffer\<close>, again with \<open>rx_index\<close> below 73;
  for any next byte \<open>b\<close> the incremented index is at most 73, and after the byte the index is
  0 or one more than before: it is 0, with no length selected, when the byte is rejected as
  sync byte or as type byte, or when it completes the frame; and inside a frame, the bytes
  still missing up to \<open>expected_length\<close> always end the accumulation with the index back
  at 0.\<close>

theorem rx_index_bounded:
  assumes "run_ops ops boot_state = Returned st"
  shows "unat (rx_index st) < sizeof_CommandPacket_t
     \<and> length (rx_buffer st) = UART_RX_BUFFER_SIZE
     \<and> (\<exists>st'. COMM_ProcessReceivedData data st = Some st'
              \<and> unat (rx_index st') < sizeof_CommandPacket_t)
     \<and> (\<exists>s1 st'. rx_store b st = Some s1 \<and> unat (rx_index s1) \<le> sizeof_CommandPacket_t
              \<and> rx_byte b st = Some st'
              \<and> (rx_index st' = 0 \<or> rx_index st' = rx_index st + 1)
              \<and> ((rx_index st = 0 \<and> b \<noteq> 0xAA) \<or>
                  (rx_index st = 1 \<and> b \<noteq> 0x55 \<and> b \<noteq> 0x56) \<or>
                  (0 < expected_length st \<and> rx_index st + 1 = expected_length st)
                  \<longrightarrow> rx_index st' = 0 \<and> expected_length st' = 0))
     \<and> (0 < expected_length st \<and>
        unat (rx_index st) + length data = unat (expected_length st) \<longrightarrow>
          (\<exists>st'. COMM_ProcessReceivedData data st = Some st'
              \<and> rx_index st' = 0 \<and> expected_length st' = 0))"
proof -
  have inv: "rx_inv st"
    using run_ops_inv [OF rx_inv_boot, of ops st] assms by simp
  then have len: "length (rx_buffer st) = UART_RX_BUFFER_SIZE" by (simp add: rx_inv_def)
  have bound: "unat (rx_index s) < sizeof_CommandPacket_t" if "rx_inv s" for s :: fw
    using that by (auto simp: rx_inv_def sizeof_CommandPacket_t_def)
  have c1: "\<exists>st'. COMM_ProcessReceivedData data st = Some st'
              \<and> unat (rx_index st') < sizeof_CommandPacket_t"
    using COMM_ProcessReceivedData_inv [OF inv, of data] bound by blast
  have st1: "\<exists>s1. rx_store b st = Some s1 \<and> unat (rx_index s1) \<le> sizeof_CommandPacket_t"
  proof -
    have "unat (rx_index st) < 73" using bound [OF inv] by (simp add: sizeof_CommandPacket_t_def)
    then show ?thesis
      by (simp add: rx_store_def UART_RX_BUFFER_SIZE_def sizeof_CommandPacket_t_def
            unat_succ_small)
  qed
  from rx_byte_inv [OF inv, of b] obtain st' where
    s: "rx_byte b st = Some st'" "rx_inv st'"
       "rx_index st' = 0 \<or> rx_index st' = rx_index st + 1" by blast
  have rej0: "rx_index st' = 0 \<and> expected_length st' = 0" if "rx_index st = 0" "b \<noteq> 0xAA"
  proof -
    from inv that(1) have "expected_length st = 0" by (auto simp: rx_inv_def)
    from rx_byte_idle0 [OF that(1) this len, of b] s(1) that(2) this show ?thesis by auto
  qed
  have rej1: "rx_index st' = 0 \<and> expected_length st' = 0"
    if "rx_index st = 1" "b \<noteq> 0x55" "b \<noteq> 0x56"
  proof -
    from inv that(1) have "expected_length st = 0" by (auto simp: rx_inv_def)
    from rx_byte_idle1 [OF that(1) this len, of b] s(1) that(2,3) this show ?thesis by auto
  qed
  have fin: "rx_index st' = 0 \<and> expected_length st' = 0"
    if "0 < expected_length st" "rx_index st + 1 = expected_length st"
  proof -
    from that(1) have ne: "expected_length st \<noteq> 0" by auto
    with inv have a: "2 \<le> unat (rx_index st)" and c: "unat (expected_length st) \<le> 73"
      and lt: "unat (rx_index st) < unat (expected_length st)"
      by (auto simp: rx_inv_def)
    from lt c have "unat (rx_index st + 1) = Suc (unat (rx_index st))"
      by (intro unat_succ_small) simp
    with that(2) have "Suc (unat (rx_index st)) = unat (expected_length st)" by simp
    from rx_byte_complete [OF a this c, of b] s(1) show ?thesis
      by (auto simp: osMessageQueuePut_command_def)
  qed
  have c2: "\<exists>s1 st'. rx_store b st = Some s1 \<and> unat (rx_index s1) \<le> sizeof_CommandPacket_t
              \<and> rx_byte b st = Some st'
              \<and> (rx_index st' = 0 \<or> rx_index st' = rx_index st + 1)
              \<and> ((rx_index st = 0 \<and> b \<noteq> 0xAA) \<or>
                  (rx_index st = 1 \<and> b \<noteq> 0x55 \<and> b \<noteq> 0x56) \<or>
                  (0 < expected_length st \<and> rx_index st + 1 = expected_length st)
                  \<longrightarrow> rx_index st' = 0 \<and> expected_length st' = 0)"
    using st1 s rej0 rej1 fin by blast
  have c3: "\<exists>st'. COMM_ProcessReceivedData data st = Some st'
              \<and> rx_index st' = 0 \<and> expected_length st' = 0"
    if "0 < expected_length st" "unat (rx_index st) + length data = unat (expected_length st)"
  proof -
    from that(1) have ne: "expected_length st \<noteq> 0" by auto
    with inv have a: "2 \<le> unat (rx_index st)" and c: "unat (expected_length st) \<le> 73"
      and lt: "unat (rx_index st) < unat (expected_length st)"
      by (auto simp: rx_inv_def)
    from lt that(2) have d: "data \<noteq> []" by auto
    from accumulate_run [OF a that(2) d c len] show ?thesis
      by (auto simp: osMessageQueuePut_command_def)
  qed
  from bound [OF inv] len c1 c2 c3 show ?thesis by blast
qed

theorem rx_index_bounded_witness:
  "run_ops [Op_COMM_ProcessReceivedData [0xAA, 0x56, 0x01]] boot_state
      = Returned (boot_state\<lparr>rx_buffer := (replicate 256 0)[0 := 0xAA, 1 := 0x56, 2 := 0x01],
                   rx_index := 3, expected_length := 73, rx_packet_type := 0x02\<rparr>)
   \<and> (\<exists>st'. COMM_ProcessReceivedData (replicate 70 0x00)
               (boot_state\<lparr>rx_buffer := (replicate 256 0)[0 := 0xAA, 1 := 0x56, 2 := 0x01],
                   rx_index := 3, expected_length := 73, rx_packet_type := 0x02\<rparr>) = Some st'
             \<and> rx_index st' = 0 \<and> expected_length st' = 0)"
proof -
  let ?s = "boot_state\<lparr>rx_buffer := (replicate 256 0)[0 := 0xAA, 1 := 0x56, 2 := 0x01],
                   rx_index := 3, expected_length := 73, rx_packet_type := 0x02\<rparr>"
  let ?s1 = "boot_state\<lparr>rx_buffer := (replicate 256 0)[0 := 0xAA], rx_index := 1\<rparr>"
  let ?s2 = "boot_state\<lparr>rx_buffer := (replicate 256 0)[0 := 0xAA, 1 := 0x56], rx_index := 2,
                   rx_packet_type := 0x02, expected_length := 73\<rparr>"
  have 1: "rx_byte 0xAA boot_state = Some ?s1"
    by (subst rx_byte_idle0) (simp_all add: boot_state_def UART_RX_BUFFER_SIZE_def)
  have 2: "rx_byte 0x56 ?s1 = Some ?s2"
    by (subst rx_byte_idle1) (simp_all add: boot_state_def UART_RX_BUFFER_SIZE_def)
  have 3: "rx_byte 0x01 ?s2 = Some ?s"
    by (subst rx_byte_accumulate) (simp_all add: boot_state_def)
  have "COMM_ProcessReceivedData [0xAA, 0x56, 0x01] boot_state = Some ?s"
    by (simp only: COMM_ProcessReceivedData.simps 1 2 3 option.case)
  then have r: "run_ops [Op_COMM_ProcessReceivedData [0xAA, 0x56, 0x01]] boot_state = Returned ?s"
    by (simp only: run_ops.simps run_op.simps of_rx_def option.case outcome.case)
  have h: "0 < expected_length ?s \<and>
        unat (rx_index ?s) + length (replicate 70 (0 :: u8)) = unat (expected_length ?s)"
    by simp
  from rx_index_bounded [OF r, of "replicate 70 0" 0] h r show ?thesis by blast
qed

subsection \<open>Where the checksum is verified\<close>

text \<open>C1 (as the code has it). \<open>COMM_ProcessReceivedData\<close> computes no checksum. With the
  parser before a frame: any 73 bytes that start with 0xAA 0x56 are copied to the command
  queue as they are (the queue having room), whatever their last two bytes; any 70 bytes
  that start with 0xAA 0x55 are consumed and dropped; in both cases no fault is recorded,
  nothing else changes, and the parser is again before a frame. The checksum is verified
  by \<open>ProcessCommand\<close>: a command with the right sync bytes whose checksum over all bytes
  but the last two differs from its \<open>checksum\<close> member is not dispatched, and
  \<open>ERROR_UART\<close> is logged.\<close>

theorem frame_completion_without_checksum:
  "(rx_index st = 0 \<and> expected_length st = 0 \<and> length (rx_buffer st) = UART_RX_BUFFER_SIZE \<and>
    length frame = sizeof_CommandPacket_t \<and> frame ! 0 = 0xAA \<and> frame ! 1 = 0x56 \<and>
    length (commandQueue st) < 5 \<longrightarrow>
      (\<exists>st'. COMM_ProcessReceivedData frame st = Some st'
          \<and> commandQueue st' = commandQueue st @ [frame]
          \<and> current_telemetry st' = current_telemetry st
          \<and> events st' = events st
          \<and> rx_index st' = 0 \<and> expected_length st' = 0))
   \<and> (rx_index st = 0 \<and> expected_length st = 0 \<and> length (rx_buffer st) = UART_RX_BUFFER_SIZE \<and>
    length frame = sizeof_TelemetryPacket_t \<and> frame ! 0 = 0xAA \<and> frame ! 1 = 0x55 \<longrightarrow>
      (\<exists>st'. COMM_ProcessReceivedData frame st = Some st'
          \<and> commandQueue st' = commandQueue st
          \<and> current_telemetry st' = current_telemetry st
          \<and> events st' = events st
          \<and> rx_index st' = 0 \<and> expected_length st' = 0))
   \<and> (sync1 cmd = 0xAA \<and> sync2 cmd = 0x56 \<and> \<not> checksum_valid cmd \<longrightarrow>
        ProcessCommand e tick cmd st = Returned (LogError ERROR_UART st))"
proof -
  have a: "\<exists>st'. COMM_ProcessReceivedData frame st = Some st'
          \<and> commandQueue st' = commandQueue st @ [frame]
          \<and> current_telemetry st' = current_telemetry st
          \<and> events st' = events st
          \<and> rx_index st' = 0 \<and> expected_length st' = 0"
    if "rx_index st = 0" "expected_length st = 0" "length (rx_buffer st) = UART_RX_BUFFER_SIZE"
      "length frame = sizeof_CommandPacket_t" "frame ! 0 = 0xAA" "frame ! 1 = 0x56"
      "length (commandQueue st) < 5"
    using command_frame_queued [OF that(1-6)] that(1,2,4,7)
    by (simp add: osMessageQueuePut_command_def)
  have b: "\<exists>st'. COMM_ProcessReceivedData frame st = Some st'
          \<and> commandQueue st' = commandQueue st
          \<and> current_telemetry st' = current_telemetry st
          \<and> events st' = events st
          \<and> rx_index st' = 0 \<and> expected_length st' = 0"
    if "rx_index st = 0" "expected_length st = 0" "length (rx_buffer st) = UART_RX_BUFFER_SIZE"
      "length frame = sizeof_TelemetryPacket_t" "frame ! 0 = 0xAA" "frame ! 1 = 0x55"
    using telemetry_frame_dropped [OF that] that(1,2)
    by simp
  have c: "ProcessCommand e tick cmd st = Returned (LogError ERROR_UART st)"
    if "sync1 cmd = 0xAA" "sync2 cmd = 0x56" "\<not> checksum_valid cmd"
    using that by (simp add: ProcessCommand_def checksum_valid_def)
  from a b c show ?thesis by blast
qed

lemma cmd_of_bytes_zero_frame:
  "cmd_of_bytes (0xAA # 0x56 # replicate 71 0) =
     \<lparr>sync1 = 0xAA, sync2 = 0x56, command_id = 0, sequence_number = 0,
      parameter_length = 0, parameters = replicate 64 0, checksum = 0\<rparr>"
proof -
  have e: "(0xAA # 0x56 # replicate 71 (0 :: u8)) ! n = 0" if "2 \<le> n" "n < 73" for n
    using that by (cases n; cases "n - 1") (simp_all add: nth_Cons')
  have t: "take 64 (drop 7 (0xAA # 0x56 # replicate 71 (0 :: u8))) = replicate 64 0"
    by (simp add: drop_Cons')
  show ?thesis
    by (simp only: cmd_of_bytes_def t)
       (simp add: e u16_of_le_def)
qed

text \<open>C1 as stated fails: a command frame of zeros after the sync bytes has a wrong checksum
  (the right one is 0xFEFF), reaches the command queue, and raises no fault.\<close>

theorem frame_completion_without_checksum_counterexample:
  "\<not> checksum_valid (cmd_of_bytes (0xAA # 0x56 # replicate 71 0))
   \<and> map_option commandQueue (COMM_ProcessReceivedData (0xAA # 0x56 # replicate 71 0) boot_state)
       = Some [0xAA # 0x56 # replicate 71 0]
   \<and> map_option (\<lambda>s. error_flags (current_telemetry s))
        (COMM_ProcessReceivedData (0xAA # 0x56 # replicate 71 0) boot_state) = Some 0"
proof -
  have v: "\<not> checksum_valid (cmd_of_bytes (0xAA # 0x56 # replicate 71 0))"
    unfolding cmd_of_bytes_zero_frame
    by (simp add: checksum_valid_def CalculateChecksum_def bytes_of_cmd_def le16_def
          sizeof_CommandPacket_t_def sum_replicate_zero)
  have "COMM_ProcessReceivedData (0xAA # 0x56 # replicate 71 0) boot_state =
     Some (osMessageQueuePut_command (0xAA # 0x56 # replicate 71 0)
            (boot_state\<lparr>rx_buffer := (0xAA # 0x56 # replicate 71 0)
                            @ drop sizeof_CommandPacket_t (rx_buffer boot_state),
                rx_packet_type := 0x02\<rparr>))"
    by (rule command_frame_queued)
       (simp_all add: boot_state_def sizeof_CommandPacket_t_def)
  then show ?thesis using v
    by (simp add: osMessageQueuePut_command_def boot_state_def zero_telemetry_def
          sizeof_CommandPacket_t_def)
qed

theorem frame_completion_without_checksum_witness:
  "(\<exists>st'. COMM_ProcessReceivedData (0xAA # 0x56 # replicate 71 0) boot_state = Some st'
       \<and> commandQueue st' = [0xAA # 0x56 # replicate 71 0])
   \<and> (\<exists>st'. COMM_ProcessReceivedData (0xAA # 0x55 # replicate 68 0) boot_state = Some st'
       \<and> commandQueue st' = [])
   \<and> ProcessCommand 0 0 (cmd_of_bytes (0xAA # 0x56 # replicate 71 0)) boot_state
       = Returned (LogError ERROR_UART boot_state)"
proof -
  have i: "rx_index boot_state = 0 \<and> expected_length boot_state = 0
      \<and> length (rx_buffer boot_state) = UART_RX_BUFFER_SIZE
      \<and> commandQueue boot_state = []"
    by (simp add: boot_state_def)
  have fc: "length (0xAA # 0x56 # replicate 71 (0 :: u8)) = sizeof_CommandPacket_t
      \<and> (0xAA # 0x56 # replicate 71 (0 :: u8)) ! 0 = 0xAA
      \<and> (0xAA # 0x56 # replicate 71 (0 :: u8)) ! 1 = 0x56"
    by (simp add: sizeof_CommandPacket_t_def)
  have ft: "length (0xAA # 0x55 # replicate 68 (0 :: u8)) = sizeof_TelemetryPacket_t
      \<and> (0xAA # 0x55 # replicate 68 (0 :: u8)) ! 0 = 0xAA
      \<and> (0xAA # 0x55 # replicate 68 (0 :: u8)) ! 1 = 0x55"
    by (simp add: sizeof_TelemetryPacket_t_def)
  have v: "sync1 (cmd_of_bytes (0xAA # 0x56 # replicate 71 0)) = 0xAA
      \<and> sync2 (cmd_of_bytes (0xAA # 0x56 # replicate 71 0)) = 0x56
      \<and> \<not> checksum_valid (cmd_of_bytes (0xAA # 0x56 # replicate 71 0))"
    unfolding cmd_of_bytes_zero_frame
    by (simp add: checksum_valid_def CalculateChecksum_def bytes_of_cmd_def le16_def
          sizeof_CommandPacket_t_def sum_replicate_zero)
  from frame_completion_without_checksum
         [of boot_state "0xAA # 0x56 # replicate 71 0", where e = 0 and tick = 0] i fc
  have 1: "\<exists>st'. COMM_ProcessReceivedData (0xAA # 0x56 # replicate 71 0) boot_state = Some st'
       \<and> commandQueue st' = [0xAA # 0x56 # replicate 71 0]"
    by (simp del: COMM_ProcessReceivedData.simps) blast
  from frame_completion_without_checksum
         [of boot_state "0xAA # 0x55 # replicate 68 0", where e = 0 and tick = 0] i ft
  have 2: "\<exists>st'. COMM_ProcessReceivedData (0xAA # 0x55 # replicate 68 0) boot_state = Some st'
       \<and> commandQueue st' = []"
    by (simp del: COMM_ProcessReceivedData.simps) blast
  from frame_completion_without_checksum
         [of boot_state _ "cmd_of_bytes (0xAA # 0x56 # replicate 71 0)" 0 0] v
  have 3: "ProcessCommand 0 0 (cmd_of_bytes (0xAA # 0x56 # replicate 71 0)) boot_state
       = Returned (LogError ERROR_UART boot_state)"
    by blast
  from 1 2 3 show ?thesis by blast
qed

subsection \<open>Encoding, checksum and decoding\<close>

text \<open>C2 (as the code has it). For every telemetry packet \<open>p\<close> and tick, \<open>COMM_SendTelemetry\<close>
  transmits the 70-byte image of \<open>p\<close> with sync bytes, packet type, timestamp and checksum
  overwritten, and the checksum computed over these bytes without the last two equals
  the checksum embedded in the last two. Fed to the parser (before a frame), these bytes
  are consumed and no packet comes out: no queue, no telemetry record and no effect
  changes. For every command packet \<open>c\<close> (with its 64-element array) the 73-byte image read
  back as a struct is \<open>c\<close>; when its sync bytes are 0xAA 0x56, the parser (before a frame,
  the queue having room) puts exactly this image on the command queue, and the queued
  message read as a struct is \<open>c\<close>.\<close>

theorem checksum_and_frame_round_trip:
  "(COMM_SendTelemetry tick p = (p', bytes) \<longrightarrow>
      bytes = bytes_of_telemetry p' \<and> length bytes = sizeof_TelemetryPacket_t
      \<and> CalculateChecksum bytes (of_nat (sizeof_TelemetryPacket_t - 2))
          = u16_of_le (bytes ! 68) (bytes ! 69)
      \<and> u16_of_le (bytes ! 68) (bytes ! 69) = tm_checksum p'
      \<and> (\<exists>ck. p' = p\<lparr>tm_sync1 := 0xAA, tm_sync2 := 0x55, packet_type := 0x01,
                       timestamp := tick, tm_checksum := ck\<rparr>)
      \<and> (rx_index st = 0 \<and> expected_length st = 0 \<and>
         length (rx_buffer st) = UART_RX_BUFFER_SIZE \<longrightarrow>
           (\<exists>st'. COMM_ProcessReceivedData bytes st = Some st'
               \<and> commandQueue st' = commandQueue st
               \<and> telemetryQueue st' = telemetryQueue st
               \<and> current_telemetry st' = current_telemetry st
               \<and> events st' = events st)))
   \<and> (wf_cmd c \<longrightarrow>
        length (bytes_of_cmd c) = sizeof_CommandPacket_t \<and> cmd_of_bytes (bytes_of_cmd c) = c)
   \<and> (wf_cmd c \<and> sync1 c = 0xAA \<and> sync2 c = 0x56 \<and>
      rx_index st = 0 \<and> expected_length st = 0 \<and>
      length (rx_buffer st) = UART_RX_BUFFER_SIZE \<and> length (commandQueue st) < 5 \<longrightarrow>
        (\<exists>st'. COMM_ProcessReceivedData (bytes_of_cmd c) st = Some st'
            \<and> commandQueue st' = commandQueue st @ [bytes_of_cmd c]
            \<and> cmd_of_bytes (last (commandQueue st')) = c))"
proof -
  have a: "bytes = bytes_of_telemetry p' \<and> length bytes = sizeof_TelemetryPacket_t
      \<and> CalculateChecksum bytes (of_nat (sizeof_TelemetryPacket_t - 2))
          = u16_of_le (bytes ! 68) (bytes ! 69)
      \<and> u16_of_le (bytes ! 68) (bytes ! 69) = tm_checksum p'
      \<and> (\<exists>ck. p' = p\<lparr>tm_sync1 := 0xAA, tm_sync2 := 0x55, packet_type := 0x01,
                       timestamp := tick, tm_checksum := ck\<rparr>)
      \<and> (rx_index st = 0 \<and> expected_length st = 0 \<and>
         length (rx_buffer st) = UART_RX_BUFFER_SIZE \<longrightarrow>
           (\<exists>st'. COMM_ProcessReceivedData bytes st = Some st'
               \<and> commandQueue st' = commandQueue st
               \<and> telemetryQueue st' = telemetryQueue st
               \<and> current_telemetry st' = current_telemetry st
               \<and> events st' = events st))"
    if h: "COMM_SendTelemetry tick p = (p', bytes)"
  proof -
    note f = COMM_SendTelemetry_checksum [OF h]
    have "\<exists>st'. COMM_ProcessReceivedData bytes st = Some st'
               \<and> commandQueue st' = commandQueue st
               \<and> telemetryQueue st' = telemetryQueue st
               \<and> current_telemetry st' = current_telemetry st
               \<and> events st' = events st"
      if i: "rx_index st = 0" "expected_length st = 0"
        "length (rx_buffer st) = UART_RX_BUFFER_SIZE"
    proof -
      from f have "length bytes = sizeof_TelemetryPacket_t" "bytes ! 0 = 0xAA" "bytes ! 1 = 0x55"
        by blast+
      from telemetry_frame_dropped [OF i this] show ?thesis by simp
    qed
    then have g: "rx_index st = 0 \<and> expected_length st = 0 \<and>
         length (rx_buffer st) = UART_RX_BUFFER_SIZE \<longrightarrow>
           (\<exists>st'. COMM_ProcessReceivedData bytes st = Some st'
               \<and> commandQueue st' = commandQueue st
               \<and> telemetryQueue st' = telemetryQueue st
               \<and> current_telemetry st' = current_telemetry st
               \<and> events st' = events st)" by blast
    from f have f1: "bytes = bytes_of_telemetry p'"
      and f2: "length bytes = sizeof_TelemetryPacket_t"
      and f3: "CalculateChecksum bytes (of_nat (sizeof_TelemetryPacket_t - 2)) = tm_checksum p'"
      and f4: "u16_of_le (bytes ! 68) (bytes ! 69) = tm_checksum p'"
      and f5: "\<exists>ck. p' = p\<lparr>tm_sync1 := 0xAA, tm_sync2 := 0x55, packet_type := 0x01,
                       timestamp := tick, tm_checksum := ck\<rparr>"
      by blast+
    from f3 f4 have f6: "CalculateChecksum bytes (of_nat (sizeof_TelemetryPacket_t - 2))
          = u16_of_le (bytes ! 68) (bytes ! 69)" by (rule trans [OF _ sym])
    from f1 f2 f6 f4 f5 g show ?thesis by (intro conjI)
  qed
  have b: "length (bytes_of_cmd c) = sizeof_CommandPacket_t \<and> cmd_of_bytes (bytes_of_cmd c) = c"
    if "wf_cmd c"
    using that by (simp add: length_bytes_of_cmd cmd_of_bytes_of_cmd sizeof_CommandPacket_t_def)
  have d: "\<exists>st'. COMM_ProcessReceivedData (bytes_of_cmd c) st = Some st'
            \<and> commandQueue st' = commandQueue st @ [bytes_of_cmd c]
            \<and> cmd_of_bytes (last (commandQueue st')) = c"
    if w: "wf_cmd c" and s: "sync1 c = 0xAA" "sync2 c = 0x56"
      and i: "rx_index st = 0" "expected_length st = 0"
        "length (rx_buffer st) = UART_RX_BUFFER_SIZE"
      and q: "length (commandQueue st) < 5"
  proof -
    have l: "length (bytes_of_cmd c) = sizeof_CommandPacket_t" using b [OF w] by simp
    have n: "bytes_of_cmd c ! 0 = 0xAA" "bytes_of_cmd c ! 1 = 0x56"
      using s by (simp_all add: bytes_of_cmd_def)
    from command_frame_queued [OF i l n] q l b [OF w] show ?thesis
      by (simp add: osMessageQueuePut_command_def)
  qed
  have A: "COMM_SendTelemetry tick p = (p', bytes) \<longrightarrow>
      bytes = bytes_of_telemetry p' \<and> length bytes = sizeof_TelemetryPacket_t
      \<and> CalculateChecksum bytes (of_nat (sizeof_TelemetryPacket_t - 2))
          = u16_of_le (bytes ! 68) (bytes ! 69)
      \<and> u16_of_le (bytes ! 68) (bytes ! 69) = tm_checksum p'
      \<and> (\<exists>ck. p' = p\<lparr>tm_sync1 := 0xAA, tm_sync2 := 0x55, packet_type := 0x01,
                       timestamp := tick, tm_checksum := ck\<rparr>)
      \<and> (rx_index st = 0 \<and> expected_length st = 0 \<and>
         length (rx_buffer st) = UART_RX_BUFFER_SIZE \<longrightarrow>
           (\<exists>st'. COMM_ProcessReceivedData bytes st = Some st'
               \<and> commandQueue st' = commandQueue st
               \<and> telemetryQueue st' = telemetryQueue st
               \<and> current_telemetry st' = current_telemetry st
               \<and> events st' = events st))"
    by (rule impI) (rule a)
  have B: "wf_cmd c \<longrightarrow>
        length (bytes_of_cmd c) = sizeof_CommandPacket_t \<and> cmd_of_bytes (bytes_of_cmd c) = c"
    by (rule impI) (rule b)
  have D: "wf_cmd c \<and> sync1 c = 0xAA \<and> sync2 c = 0x56 \<and>
      rx_index st = 0 \<and> expected_length st = 0 \<and>
      length (rx_buffer st) = UART_RX_BUFFER_SIZE \<and> length (commandQueue st) < 5 \<longrightarrow>
        (\<exists>st'. COMM_ProcessReceivedData (bytes_of_cmd c) st = Some st'
            \<and> commandQueue st' = commandQueue st @ [bytes_of_cmd c]
            \<and> cmd_of_bytes (last (commandQueue st')) = c)"
  proof
    assume h: "wf_cmd c \<and> sync1 c = 0xAA \<and> sync2 c = 0x56 \<and>
      rx_index st = 0 \<and> expected_length st = 0 \<and>
      length (rx_buffer st) = UART_RX_BUFFER_SIZE \<and> length (commandQueue st) < 5"
    show "\<exists>st'. COMM_ProcessReceivedData (bytes_of_cmd c) st = Some st'
            \<and> commandQueue st' = commandQueue st @ [bytes_of_cmd c]
            \<and> cmd_of_bytes (last (commandQueue st')) = c"
      by (rule d) (use h in blast)+
  qed
  show ?thesis by (rule conjI [OF A conjI [OF B D]])
qed

text \<open>C2 as stated fails for the telemetry kind: the encoded packet is not the packet given
  (the header is overwritten), and decoding the encoded bytes delivers no packet at all.\<close>

theorem checksum_and_frame_round_trip_counterexample:
  "fst (COMM_SendTelemetry 0 zero_telemetry) \<noteq> zero_telemetry
   \<and> map_option commandQueue
       (COMM_ProcessReceivedData (snd (COMM_SendTelemetry 0 zero_telemetry)) boot_state) = Some []
   \<and> map_option telemetryQueue
       (COMM_ProcessReceivedData (snd (COMM_SendTelemetry 0 zero_telemetry)) boot_state) = Some []
   \<and> map_option events
       (COMM_ProcessReceivedData (snd (COMM_SendTelemetry 0 zero_telemetry)) boot_state) = Some []"
proof -
  obtain p' bytes where h: "COMM_SendTelemetry 0 zero_telemetry = (p', bytes)"
    by (cases "COMM_SendTelemetry 0 zero_telemetry")
  note f = COMM_SendTelemetry_checksum [OF h]
  from f obtain ck where "p' = zero_telemetry\<lparr>tm_sync1 := 0xAA, tm_sync2 := 0x55,
      packet_type := 0x01, timestamp := 0, tm_checksum := ck\<rparr>" by blast
  then have "tm_sync1 p' = 0xAA" by simp
  then have ne: "p' \<noteq> zero_telemetry" by (auto simp: zero_telemetry_def)
  from f have "length bytes = sizeof_TelemetryPacket_t" "bytes ! 0 = 0xAA" "bytes ! 1 = 0x55"
    by blast+
  from telemetry_frame_dropped [OF _ _ _ this, of boot_state]
  have "COMM_ProcessReceivedData bytes boot_state =
     Some (boot_state\<lparr>rx_buffer := bytes @ drop sizeof_TelemetryPacket_t (rx_buffer boot_state),
              rx_packet_type := 0x01\<rparr>)"
    by (simp add: boot_state_def)
  with ne h show ?thesis by (simp add: boot_state_def)
qed

theorem checksum_and_frame_round_trip_witness:
  "CalculateChecksum (snd (COMM_SendTelemetry 7 zero_telemetry)) 68
      = tm_checksum (fst (COMM_SendTelemetry 7 zero_telemetry))
   \<and> cmd_of_bytes (bytes_of_cmd \<lparr>sync1 = 0xAA, sync2 = 0x56, command_id = 0x01,
        sequence_number = 5, parameter_length = 0, parameters = replicate 64 0,
        checksum = 0xFEF9\<rparr>)
      = \<lparr>sync1 = 0xAA, sync2 = 0x56, command_id = 0x01,
        sequence_number = 5, parameter_length = 0, parameters = replicate 64 0,
        checksum = 0xFEF9\<rparr>
   \<and> map_option commandQueue (COMM_ProcessReceivedData
        (bytes_of_cmd \<lparr>sync1 = 0xAA, sync2 = 0x56, command_id = 0x01,
        sequence_number = 5, parameter_length = 0, parameters = replicate 64 0,
        checksum = 0xFEF9\<rparr>) boot_state)
      = Some [bytes_of_cmd \<lparr>sync1 = 0xAA, sync2 = 0x56, command_id = 0x01,
        sequence_number = 5, parameter_length = 0, parameters = replicate 64 0,
        checksum = 0xFEF9\<rparr>]"
proof -
  let ?c = "\<lparr>sync1 = 0xAA, sync2 = 0x56, command_id = 0x01,
        sequence_number = 5, parameter_length = 0, parameters = replicate 64 0,
        checksum = 0xFEF9\<rparr>"
  have t: "COMM_SendTelemetry 7 zero_telemetry
      = (fst (COMM_SendTelemetry 7 zero_telemetry), snd (COMM_SendTelemetry 7 zero_telemetry))"
    by simp
  have w: "wf_cmd ?c \<and> sync1 ?c = 0xAA \<and> sync2 ?c = 0x56" by (simp add: wf_cmd_def)
  have i: "rx_index boot_state = 0 \<and> expected_length boot_state = 0
      \<and> length (rx_buffer boot_state) = UART_RX_BUFFER_SIZE
      \<and> length (commandQueue boot_state) < 5 \<and> commandQueue boot_state = []"
    by (simp add: boot_state_def)
  note r = checksum_and_frame_round_trip
      [of 7 zero_telemetry "fst (COMM_SendTelemetry 7 zero_telemetry)"
          "snd (COMM_SendTelemetry 7 zero_telemetry)" boot_state ?c]
  note r1 = r [THEN conjunct1, THEN mp, OF t]
  from r1 have "CalculateChecksum (snd (COMM_SendTelemetry 7 zero_telemetry))
        (of_nat (sizeof_TelemetryPacket_t - 2))
      = u16_of_le (snd (COMM_SendTelemetry 7 zero_telemetry) ! 68)
          (snd (COMM_SendTelemetry 7 zero_telemetry) ! 69)"
    and "u16_of_le (snd (COMM_SendTelemetry 7 zero_telemetry) ! 68)
          (snd (COMM_SendTelemetry 7 zero_telemetry) ! 69)
      = tm_checksum (fst (COMM_SendTelemetry 7 zero_telemetry))"
    by blast+
  then have "CalculateChecksum (snd (COMM_SendTelemetry 7 zero_telemetry))
        (of_nat (sizeof_TelemetryPacket_t - 2))
      = tm_checksum (fst (COMM_SendTelemetry 7 zero_telemetry))"
    by (rule trans)
  then have 1: "CalculateChecksum (snd (COMM_SendTelemetry 7 zero_telemetry)) 68
      = tm_checksum (fst (COMM_SendTelemetry 7 zero_telemetry))"
    by (simp add: sizeof_TelemetryPacket_t_def)
  from r w have 2: "cmd_of_bytes (bytes_of_cmd ?c) = ?c" by blast
  from r w i have "\<exists>st'. COMM_ProcessReceivedData (bytes_of_cmd ?c) boot_state = Some st'
            \<and> commandQueue st' = commandQueue boot_state @ [bytes_of_cmd ?c]"
    by blast
  with i have 3: "map_option commandQueue (COMM_ProcessReceivedData (bytes_of_cmd ?c) boot_state)
      = Some [bytes_of_cmd ?c]" by auto
  from 1 2 3 show ?thesis by blast
qed

end
